theory Spec2Isabelle
  imports Main
begin

section \<open>The persistent store (database.py)\<close>

text \<open>
  \<^verbatim>\<open>EnhancedDatabaseManager\<close> wraps a document database. Every collection holds
  documents scoped by a numeric \<^verbatim>\<open>user_id\<close>. A collection is modelled as the list of
  its documents (in insertion order), a document as its \<^verbatim>\<open>user_id\<close> together with the
  fields the code reads or writes. A field that a document may lack is an \<open>option\<close>:
  \<^verbatim>\<open>doc.get(key, default)\<close> is the \<open>case\<close> on it.

  The store itself is taken to answer every call: the \<^verbatim>\<open>except Exception\<close> branches
  of the adapter, which only run when the database is unreachable, are not part of the
  model.
\<close>

record 'a doc =
  user_id :: int
  body :: 'a

text \<open>\<^verbatim>\<open>collection.find_one({"user_id": uid})\<close>: the first matching document.\<close>

definition find_one :: "int \<Rightarrow> 'a doc list \<Rightarrow> 'a doc option" where
  "find_one uid docs = find (\<lambda>d. user_id d = uid) docs"

text \<open>\<^verbatim>\<open>list(collection.find({"user_id": uid}))\<close>: every matching document.\<close>

definition find_many :: "int \<Rightarrow> 'a doc list \<Rightarrow> 'a doc list" where
  "find_many uid docs = filter (\<lambda>d. user_id d = uid) docs"

text \<open>\<^verbatim>\<open>collection.delete_many({"user_id": uid})\<close>.\<close>

definition delete_many :: "int \<Rightarrow> 'a doc list \<Rightarrow> 'a doc list" where
  "delete_many uid docs = filter (\<lambda>d. user_id d \<noteq> uid) docs"

text \<open>
  \<^verbatim>\<open>collection.update_one({"user_id": uid}, update, upsert=True)\<close>: the update \<open>f\<close>
  (the \<^verbatim>\<open>$set\<close> and \<^verbatim>\<open>$inc\<close> of the call) is applied to the first matching
  document; when there is none, a document with the key and the update applied to
  an empty body \<open>e\<close> is inserted.
\<close>

fun update_one :: "int \<Rightarrow> ('a \<Rightarrow> 'a) \<Rightarrow> 'a \<Rightarrow> 'a doc list \<Rightarrow> 'a doc list" where
  "update_one uid f e [] = [\<lparr>user_id = uid, body = f e\<rparr>]"
| "update_one uid f e (d # ds) =
     (if user_id d = uid then d\<lparr>body := f (body d)\<rparr> # ds
      else d # update_one uid f e ds)"

subsection \<open>Documents\<close>

text \<open>
  The \<^verbatim>\<open>saved_from_peer\<close> of a post link is a user name or a numeric id
  (\<^verbatim>\<open>parse_post_link\<close> returns either).
\<close>

datatype peer = PeerName string | PeerId int

record user_body =
  saved_messages_count :: "int option"
  ad_cycle_index :: "int option"
  schedule_enabled :: "bool option"
  schedule_start_time :: "string option"
  schedule_end_time :: "string option"
  broadcast_mode :: "string option"
  message_source :: "string option"
  post_link :: "string option"
  saved_from_peer :: "peer option"
  saved_msg_id :: "int option"

definition empty_user :: user_body where
  "empty_user = \<lparr>saved_messages_count = None, ad_cycle_index = None,
     schedule_enabled = None, schedule_start_time = None, schedule_end_time = None,
     broadcast_mode = None, message_source = None, post_link = None,
     saved_from_peer = None, saved_msg_id = None\<rparr>"

record state_body =
  running :: "bool option"
  paused :: "bool option"

definition empty_state :: state_body where
  "empty_state = \<lparr>running = None, paused = None\<rparr>"

record analytics_body =
  total_sent :: "int option"
  total_failed :: "int option"
  total_broadcasts :: "int option"
  total_cycles :: "int option"

definition empty_analytics :: analytics_body where
  "empty_analytics = \<lparr>total_sent = None, total_failed = None,
     total_broadcasts = None, total_cycles = None\<rparr>"

record logger_body =
  is_started :: "bool option"
  is_active :: "bool option"

record account_body =
  account_id :: int
  phone_number :: string

record group_body =
  group_id :: int
  group_name :: string

text \<open>
  The remaining collections are only ever deleted from in the code modelled here; their
  documents carry an opaque payload.
\<close>

record database =
  users :: "user_body doc list"
  accounts :: "account_body doc list"
  ad_pointers :: "string doc list"
  ad_delays :: "int doc list"
  group_msg_delays :: "int doc list"
  cycle_timeouts :: "int doc list"
  broadcast_states :: "state_body doc list"
  broadcast_logs :: "string doc list"
  broadcast_activity :: "string doc list"
  target_groups :: "group_body doc list"
  forum_groups :: "group_body doc list"
  analytics :: "analytics_body doc list"
  logger_status :: "logger_body doc list"
  logger_failures :: "string doc list"
  temp_data :: "string doc list"
  groups_cache :: "group_body doc list"

subsection \<open>Saved-message count and rotation pointer\<close>

text \<open>
  \<^verbatim>\<open>get_user_saved_messages_count\<close>: the stored count, 3 when the user or the field
  is missing, and 3 again when the stored count is zero or negative.
\<close>

definition get_user_saved_messages_count :: "database \<Rightarrow> int \<Rightarrow> int" where
  "get_user_saved_messages_count db uid =
     (let count = (case find_one uid (users db) of
                     None \<Rightarrow> 3
                   | Some user \<Rightarrow>
                       (case saved_messages_count (body user) of None \<Rightarrow> 3 | Some c \<Rightarrow> c))
      in if count \<le> 0 then 3 else count)"

text \<open>
  \<^verbatim>\<open>set_user_saved_messages_count\<close>: an upsert of the field. The store keeps an integer
  in at most 8 bytes: for a count outside that range the write raises, the method
  catches the exception, nothing is stored and \<^verbatim>\<open>False\<close> is returned.
\<close>

definition int64 :: "int \<Rightarrow> bool" where
  "int64 n = (- (2 ^ 63) \<le> n \<and> n < 2 ^ 63)"

definition set_user_saved_messages_count :: "database \<Rightarrow> int \<Rightarrow> int \<Rightarrow> database \<times> bool" where
  "set_user_saved_messages_count db uid count =
     (if int64 count
      then (db\<lparr>users := update_one uid (\<lambda>b. b\<lparr>saved_messages_count := Some count\<rparr>)
                            empty_user (users db)\<rparr>,
            True)
      else (db, False))"

text \<open>\<^verbatim>\<open>get_current_ad_cycle\<close>: the stored pointer, 0 when it is missing.\<close>

definition get_current_ad_cycle :: "database \<Rightarrow> int \<Rightarrow> int" where
  "get_current_ad_cycle db uid =
     (case find_one uid (users db) of
        None \<Rightarrow> 0
      | Some user \<Rightarrow> (case ad_cycle_index (body user) of None \<Rightarrow> 0 | Some i \<Rightarrow> i))"

text \<open>\<^verbatim>\<open>reset_ad_cycle\<close>: the pointer is set to 0 (upsert).\<close>

definition reset_ad_cycle :: "database \<Rightarrow> int \<Rightarrow> database" where
  "reset_ad_cycle db uid =
     db\<lparr>users := update_one uid (\<lambda>b. b\<lparr>ad_cycle_index := Some 0\<rparr>) empty_user (users db)\<rparr>"

text \<open>
  Python's \<^verbatim>\<open>a % b\<close> on integers raises \<^verbatim>\<open>ZeroDivisionError\<close> for \<open>b = 0\<close>;
  otherwise the result has the sign of \<open>b\<close>, as \<open>mod\<close> on \<open>int\<close> has.
\<close>

definition py_mod :: "int \<Rightarrow> int \<Rightarrow> int option" where
  "py_mod a b = (if b = 0 then None else Some (a mod b))"

text \<open>
  \<^verbatim>\<open>update_ad_cycle\<close> returns the new pointer and stores it. A zero count returns 0
  without a write; an exception inside the \<^verbatim>\<open>try\<close> (the modulus by zero) is caught
  and returns 0 without a write as well.
\<close>

definition update_ad_cycle :: "database \<Rightarrow> int \<Rightarrow> database \<times> int" where
  "update_ad_cycle db uid =
     (let user_msg_count = get_user_saved_messages_count db uid in
      if user_msg_count = 0 then (db, 0)
      else
        (let current_cycle = get_current_ad_cycle db uid in
         case py_mod (current_cycle + 1) user_msg_count of
           None \<Rightarrow> (db, 0)
         | Some next_cycle \<Rightarrow>
             (db\<lparr>users := update_one uid (\<lambda>b. b\<lparr>ad_cycle_index := Some next_cycle\<rparr>)
                              empty_user (users db)\<rparr>,
              next_cycle)))"

text \<open>
  \<^verbatim>\<open>increment_broadcast_cycle\<close>, the cycle-advance operation the engine calls after
  every pass: it counts the cycle in the analytics and then calls
  \<^verbatim>\<open>update_ad_cycle\<close>.
\<close>

definition inc_field :: "int option \<Rightarrow> int option" where
  "inc_field v = Some ((case v of None \<Rightarrow> 0 | Some n \<Rightarrow> n) + 1)"

definition increment_broadcast_cycle :: "database \<Rightarrow> int \<Rightarrow> database" where
  "increment_broadcast_cycle db uid =
     fst (update_ad_cycle
       (db\<lparr>analytics := update_one uid (\<lambda>b. b\<lparr>total_cycles := inc_field (total_cycles b)\<rparr>)
                           empty_analytics (analytics db)\<rparr>)
       uid)"

text \<open>
  \<open>n\<close> applications of the cycle-advance operation: of \<^verbatim>\<open>update_ad_cycle\<close> itself
  (\<open>advance\<close>), and of \<^verbatim>\<open>increment_broadcast_cycle\<close>, which is what the engine
  calls at the end of a cycle (\<open>cycles\<close>).
\<close>

fun advance :: "nat \<Rightarrow> database \<Rightarrow> int \<Rightarrow> database" where
  "advance 0 db uid = db"
| "advance (Suc n) db uid = fst (update_ad_cycle (advance n db uid) uid)"

fun cycles :: "nat \<Rightarrow> database \<Rightarrow> int \<Rightarrow> database" where
  "cycles 0 db uid = db"
| "cycles (Suc n) db uid = increment_broadcast_cycle (cycles n db uid) uid"

subsection \<open>Users, accounts, groups\<close>

text \<open>\<^verbatim>\<open>get_user\<close>: the user document, \<^verbatim>\<open>None\<close> when there is none.\<close>

definition get_user :: "database \<Rightarrow> int \<Rightarrow> user_body option" where
  "get_user db uid = map_option body (find_one uid (users db))"

definition get_user_accounts :: "database \<Rightarrow> int \<Rightarrow> account_body doc list" where
  "get_user_accounts db uid = find_many uid (accounts db)"

definition get_target_groups :: "database \<Rightarrow> int \<Rightarrow> group_body doc list" where
  "get_target_groups db uid = find_many uid (target_groups db)"

definition get_forum_groups :: "database \<Rightarrow> int \<Rightarrow> group_body doc list" where
  "get_forum_groups db uid = find_many uid (forum_groups db)"

text \<open>\<^verbatim>\<open>get_broadcast_mode\<close>: the stored mode string, \<^verbatim>\<open>"both"\<close> by default.\<close>

definition get_broadcast_mode :: "database \<Rightarrow> int \<Rightarrow> string" where
  "get_broadcast_mode db uid =
     (case find_one uid (users db) of
        None \<Rightarrow> ''both''
      | Some user \<Rightarrow> (case broadcast_mode (body user) of None \<Rightarrow> ''both'' | Some m \<Rightarrow> m))"

text \<open>
  \<^verbatim>\<open>get_user_post_link\<close> returns a dictionary of four entries for an existing user
  (\<^verbatim>\<open>message_source\<close> defaulting to \<^verbatim>\<open>"saved_messages"\<close>) and \<^verbatim>\<open>None\<close> otherwise.
\<close>

record post_link_data =
  pl_post_link :: "string option"
  pl_saved_from_peer :: "peer option"
  pl_saved_msg_id :: "int option"
  pl_message_source :: string

definition get_user_post_link :: "database \<Rightarrow> int \<Rightarrow> post_link_data option" where
  "get_user_post_link db uid =
     (case find_one uid (users db) of
        None \<Rightarrow> None
      | Some user \<Rightarrow>
          Some \<lparr>pl_post_link = post_link (body user),
                pl_saved_from_peer = saved_from_peer (body user),
                pl_saved_msg_id = saved_msg_id (body user),
                pl_message_source =
                  (case message_source (body user) of None \<Rightarrow> ''saved_messages'' | Some m \<Rightarrow> m)\<rparr>)"

subsection \<open>Broadcast state\<close>

text \<open>
  \<^verbatim>\<open>get_broadcast_state\<close> returns the stored document, or
  \<^verbatim>\<open>{"running": False, "paused": False}\<close>. Its callers read
  \<^verbatim>\<open>state.get("running", False)\<close>, which is \<open>state_running\<close>.
\<close>

definition get_broadcast_state :: "database \<Rightarrow> int \<Rightarrow> state_body" where
  "get_broadcast_state db uid =
     (case find_one uid (broadcast_states db) of
        None \<Rightarrow> \<lparr>running = Some False, paused = Some False\<rparr>
      | Some d \<Rightarrow> body d)"

definition state_running :: "state_body \<Rightarrow> bool" where
  "state_running st = (case running st of None \<Rightarrow> False | Some b \<Rightarrow> b)"

text \<open>
  \<^verbatim>\<open>set_broadcast_state(user_id, running=False, paused=False)\<close>: both flags are
  written on every call (an omitted keyword argument writes \<^verbatim>\<open>False\<close>).
\<close>

definition set_broadcast_state :: "database \<Rightarrow> int \<Rightarrow> bool \<Rightarrow> bool \<Rightarrow> database" where
  "set_broadcast_state db uid r p =
     db\<lparr>broadcast_states :=
          update_one uid (\<lambda>b. b\<lparr>running := Some r, paused := Some p\<rparr>) empty_state
            (broadcast_states db)\<rparr>"

subsection \<open>Analytics\<close>

text \<open>
  \<^verbatim>\<open>get_user_analytics\<close> returns the stored document or a document of zeros; the
  views read \<^verbatim>\<open>analytics.get('total_sent', 0)\<close> and
  \<^verbatim>\<open>analytics.get('total_failed', 0)\<close>.
\<close>

definition get_user_analytics :: "database \<Rightarrow> int \<Rightarrow> analytics_body" where
  "get_user_analytics db uid =
     (case find_one uid (analytics db) of
        None \<Rightarrow> \<lparr>total_sent = Some 0, total_failed = Some 0,
                  total_broadcasts = Some 0, total_cycles = Some 0\<rparr>
      | Some d \<Rightarrow> body d)"

definition counter :: "int option \<Rightarrow> int" where
  "counter v = (case v of None \<Rightarrow> 0 | Some n \<Rightarrow> n)"

text \<open>
  \<^verbatim>\<open>increment_broadcast_stats(user_id, success)\<close>: \<^verbatim>\<open>total_sent\<close> or
  \<^verbatim>\<open>total_failed\<close> goes up by one, and so does \<^verbatim>\<open>total_broadcasts\<close>. The
  optional per-group and per-account breakdown is never requested by the engine and is
  left out.
\<close>

definition increment_broadcast_stats :: "database \<Rightarrow> int \<Rightarrow> bool \<Rightarrow> database" where
  "increment_broadcast_stats db uid success =
     db\<lparr>analytics :=
          update_one uid
            (\<lambda>b. (if success then b\<lparr>total_sent := inc_field (total_sent b)\<rparr>
                  else b\<lparr>total_failed := inc_field (total_failed b)\<rparr>)
                 \<lparr>total_broadcasts := inc_field (total_broadcasts b)\<rparr>)
            empty_analytics (analytics db)\<rparr>"

subsection \<open>Logger status\<close>

text \<open>
  \<^verbatim>\<open>get_logger_status\<close> returns a dictionary with the two keys
  \<^verbatim>\<open>is_started\<close> and \<^verbatim>\<open>is_active\<close>, both holding
  \<^verbatim>\<open>doc.get("is_started", doc.get("is_active", False))\<close>, or both \<^verbatim>\<open>False\<close> when
  the user has no document. The dictionary is modelled as the list of its items.
\<close>

definition get_logger_status :: "database \<Rightarrow> int \<Rightarrow> (string \<times> bool) list" where
  "get_logger_status db uid =
     (case find_one uid (logger_status db) of
        Some d \<Rightarrow>
          (let started =
                 (case is_started (body d) of
                    Some b \<Rightarrow> b
                  | None \<Rightarrow> (case is_active (body d) of Some b \<Rightarrow> b | None \<Rightarrow> False))
           in [(''is_started'', started), (''is_active'', started)])
      | None \<Rightarrow> [(''is_started'', False), (''is_active'', False)])"

text \<open>Python's truth value of a dictionary: false exactly when it is empty.\<close>

definition dict_truthy :: "('k \<times> 'v) list \<Rightarrow> bool" where
  "dict_truthy d = (d \<noteq> [])"

definition set_logger_status :: "database \<Rightarrow> int \<Rightarrow> bool \<Rightarrow> database" where
  "set_logger_status db uid active =
     db\<lparr>logger_status :=
          update_one uid (\<lambda>b. b\<lparr>is_active := Some active, is_started := Some active\<rparr>)
            \<lparr>is_started = None, is_active = None\<rparr> (logger_status db)\<rparr>"

subsection \<open>Full wipe\<close>

text \<open>
  \<^verbatim>\<open>delete_user_fully\<close> walks a fixed list of collection names and deletes the
  user's documents from each; \<^verbatim>\<open>getattr(self.db, coll, None)\<close> yields the collection
  of that name. It returns \<^verbatim>\<open>True\<close>.
\<close>

definition delete_from :: "string \<Rightarrow> int \<Rightarrow> database \<Rightarrow> database" where
  "delete_from coll uid db =
     (if coll = ''users'' then db\<lparr>users := delete_many uid (users db)\<rparr>
      else if coll = ''accounts'' then db\<lparr>accounts := delete_many uid (accounts db)\<rparr>
      else if coll = ''ad_pointers'' then db\<lparr>ad_pointers := delete_many uid (ad_pointers db)\<rparr>
      else if coll = ''ad_delays'' then db\<lparr>ad_delays := delete_many uid (ad_delays db)\<rparr>
      else if coll = ''group_msg_delays''
        then db\<lparr>group_msg_delays := delete_many uid (group_msg_delays db)\<rparr>
      else if coll = ''cycle_timeouts''
        then db\<lparr>cycle_timeouts := delete_many uid (cycle_timeouts db)\<rparr>
      else if coll = ''broadcast_states''
        then db\<lparr>broadcast_states := delete_many uid (broadcast_states db)\<rparr>
      else if coll = ''broadcast_logs''
        then db\<lparr>broadcast_logs := delete_many uid (broadcast_logs db)\<rparr>
      else if coll = ''broadcast_activity''
        then db\<lparr>broadcast_activity := delete_many uid (broadcast_activity db)\<rparr>
      else if coll = ''target_groups''
        then db\<lparr>target_groups := delete_many uid (target_groups db)\<rparr>
      else if coll = ''forum_groups''
        then db\<lparr>forum_groups := delete_many uid (forum_groups db)\<rparr>
      else if coll = ''analytics'' then db\<lparr>analytics := delete_many uid (analytics db)\<rparr>
      else if coll = ''logger_status''
        then db\<lparr>logger_status := delete_many uid (logger_status db)\<rparr>
      else if coll = ''logger_failures''
        then db\<lparr>logger_failures := delete_many uid (logger_failures db)\<rparr>
      else if coll = ''temp_data'' then db\<lparr>temp_data := delete_many uid (temp_data db)\<rparr>
      else if coll = ''groups_cache''
        then db\<lparr>groups_cache := delete_many uid (groups_cache db)\<rparr>
      else db)"

definition wiped_collections :: "string list" where
  "wiped_collections =
     [''users'', ''accounts'', ''ad_pointers'',
      ''ad_delays'', ''group_msg_delays'', ''cycle_timeouts'',
      ''broadcast_states'', ''broadcast_logs'', ''broadcast_activity'',
      ''target_groups'', ''logger_status'',
      ''logger_failures'', ''temp_data'', ''groups_cache'']"

definition delete_user_fully :: "database \<Rightarrow> int \<Rightarrow> database \<times> bool" where
  "delete_user_fully db uid = (foldl (\<lambda>d coll. delete_from coll uid d) db wiped_collections, True)"

definition empty_db :: database where
  "empty_db = \<lparr>users = [], accounts = [], ad_pointers = [], ad_delays = [],
     group_msg_delays = [], cycle_timeouts = [], broadcast_states = [], broadcast_logs = [],
     broadcast_activity = [], target_groups = [], forum_groups = [], analytics = [],
     logger_status = [], logger_failures = [], temp_data = [], groups_cache = []\<rparr>"

section \<open>The daily schedule window (main.py)\<close>

text \<open>
  The engine reads the wall clock in IST, a zone with a fixed offset. An instant is
  modelled as the number of microseconds since a local midnight; its time of day (what
  \<^verbatim>\<open>datetime.time()\<close> returns: hour, minute, second, microsecond, compared
  lexicographically) is the number of microseconds since the last midnight.
\<close>

definition day_us :: int where
  "day_us = 86400000000"

definition time_of_day :: "int \<Rightarrow> int" where
  "time_of_day now = now mod day_us"

definition midnight :: "int \<Rightarrow> int" where
  "midnight now = now - time_of_day now"

definition clock :: "int \<Rightarrow> int \<Rightarrow> int \<Rightarrow> int \<Rightarrow> int" where
  "clock h m s us = ((h * 60 + m) * 60 + s) * 1000000 + us"

subsection \<open>\<^verbatim>\<open>datetime.strptime(s, "%I:%M %p").time()\<close>\<close>

text \<open>
  The standard library matches the whole string against
  \<^verbatim>\<open>(1[0-2]|0[1-9]|[1-9]):([0-5]\d|\d)\s+(am|pm)\<close>, ignoring case, and raises
  \<^verbatim>\<open>ValueError\<close> otherwise; 12 AM is hour 0 and 12 PM is hour 12. The result is
  \<open>None\<close> where the library raises. A character is a code point below 256; \<^verbatim>\<open>\s\<close>
  matches there the space, the codes 9 to 13, the codes 28 to 31, and the codes 133
  (next line) and 160 (no-break space).
\<close>

definition digit_of :: "char \<Rightarrow> nat option" where
  "digit_of c = (let n = (of_char c :: nat) in if 48 \<le> n \<and> n \<le> 57 then Some (n - 48) else None)"

definition is_space :: "char \<Rightarrow> bool" where
  "is_space c =
     (let n = (of_char c :: nat) in
      n = 32 \<or> (9 \<le> n \<and> n \<le> 13) \<or> (28 \<le> n \<and> n \<le> 31) \<or> n = 133 \<or> n = 160)"

text \<open>
  \<^verbatim>\<open>str.lower()\<close>: a letter from \<^verbatim>\<open>A\<close> to \<^verbatim>\<open>Z\<close> (codes 65 to 90) gets the bit of
  weight 32 set, which adds 32 to its code. The results are only ever compared with
  ASCII words; the letters with codes between 192 and 222, which Python maps to codes
  between 224 and 254, are left as they are, since neither form is an ASCII letter.
\<close>

definition lower_char :: "char \<Rightarrow> char" where
  "lower_char c =
     (let n = (of_char c :: nat) in
      if 65 \<le> n \<and> n \<le> 90
      then (case c of Char b0 b1 b2 b3 b4 b5 b6 b7 \<Rightarrow> Char b0 b1 b2 b3 b4 True b6 b7)
      else c)"

definition lower :: "string \<Rightarrow> string" where
  "lower s = map lower_char s"

definition parse_hour :: "string \<Rightarrow> (nat \<times> string) option" where
  "parse_hour s =
     (case s of
        [] \<Rightarrow> None
      | a # r \<Rightarrow>
          (case digit_of a of
             None \<Rightarrow> None
           | Some x \<Rightarrow>
               (case r of
                  [] \<Rightarrow> if 1 \<le> x then Some (x, r) else None
                | b # r' \<Rightarrow>
                    (case digit_of b of
                       None \<Rightarrow> if 1 \<le> x then Some (x, r) else None
                     | Some y \<Rightarrow>
                         if x = 1 \<and> y \<le> 2 then Some (10 + y, r')
                         else if x = 0 \<and> 1 \<le> y then Some (y, r')
                         else if 1 \<le> x then Some (x, r)
                         else None))))"

definition parse_minute :: "string \<Rightarrow> (nat \<times> string) option" where
  "parse_minute s =
     (case s of
        [] \<Rightarrow> None
      | a # r \<Rightarrow>
          (case digit_of a of
             None \<Rightarrow> None
           | Some x \<Rightarrow>
               (case r of
                  [] \<Rightarrow> Some (x, r)
                | b # r' \<Rightarrow>
                    (case digit_of b of
                       None \<Rightarrow> Some (x, r)
                     | Some y \<Rightarrow> if x \<le> 5 then Some (10 * x + y, r') else Some (x, r)))))"

definition strptime_time :: "string \<Rightarrow> int option" where
  "strptime_time s =
     (case parse_hour s of
        None \<Rightarrow> None
      | Some (h, r1) \<Rightarrow>
          (case r1 of
             [] \<Rightarrow> None
           | c # r2 \<Rightarrow>
               if c \<noteq> CHR '':'' then None
               else
                 (case parse_minute r2 of
                    None \<Rightarrow> None
                  | Some (m, r3) \<Rightarrow>
                      (case r3 of
                         [] \<Rightarrow> None
                       | sp # r4 \<Rightarrow>
                           if \<not> is_space sp then None
                           else
                             (let p = lower (dropWhile is_space r4) in
                              if p = ''am'' then Some (clock (if h = 12 then 0 else int h) (int m) 0 0)
                              else if p = ''pm''
                                then Some (clock (if h = 12 then 12 else int h + 12) (int m) 0 0)
                              else None)))))"

subsection \<open>\<^verbatim>\<open>is_within_schedule\<close>\<close>

text \<open>
  The second component of the result is the message; for an instant outside the window it
  carries the start string and the hours and minutes until the next start. Any exception
  (no user document, a time string that does not parse) yields
  \<^verbatim>\<open>(True, "Schedule check error - continuing")\<close>.
\<close>

datatype schedule_msg =
    ScheduleDisabled
  | WithinSchedule
  | OutsideSchedule string int int
  | ScheduleCheckError

definition flag :: "bool option \<Rightarrow> bool" where
  "flag v = (case v of None \<Rightarrow> False | Some b \<Rightarrow> b)"

definition start_time_str :: "user_body \<Rightarrow> string" where
  "start_time_str u = (case schedule_start_time u of None \<Rightarrow> ''12:00 AM'' | Some s \<Rightarrow> s)"

definition end_time_str :: "user_body \<Rightarrow> string" where
  "end_time_str u = (case schedule_end_time u of None \<Rightarrow> ''11:59 PM'' | Some s \<Rightarrow> s)"

definition is_within_schedule :: "user_body option \<Rightarrow> int \<Rightarrow> bool \<times> schedule_msg" where
  "is_within_schedule user_data now =
     (case user_data of
        None \<Rightarrow> (True, ScheduleCheckError)
      | Some u \<Rightarrow>
          if \<not> flag (schedule_enabled u) then (True, ScheduleDisabled)
          else
            (case strptime_time (start_time_str u) of
               None \<Rightarrow> (True, ScheduleCheckError)
             | Some start_time \<Rightarrow>
                 (case strptime_time (end_time_str u) of
                    None \<Rightarrow> (True, ScheduleCheckError)
                  | Some end_time \<Rightarrow>
                      (let current_time_only = time_of_day now;
                           within_schedule =
                             (if start_time \<le> end_time
                              then start_time \<le> current_time_only \<and> current_time_only \<le> end_time
                              else current_time_only \<ge> start_time \<or> current_time_only \<le> end_time)
                       in if within_schedule then (True, WithinSchedule)
                          else
                            (let next_start =
                                   (if start_time \<le> end_time
                                    then (if current_time_only < start_time
                                          then midnight now + start_time
                                          else midnight now + day_us + start_time)
                                    else (if current_time_only > end_time \<and> current_time_only < start_time
                                          then midnight now + start_time
                                          else midnight now + day_us + start_time));
                                 wait_duration = next_start - now
                             in (False,
                                 OutsideSchedule (start_time_str u)
                                   (wait_duration div 3600000000)
                                   ((wait_duration mod 3600000000) div 60000000)))))))"

subsection \<open>\<^verbatim>\<open>calculate_remaining_time_today\<close>\<close>

text \<open>
  The result is \<^verbatim>\<open>should_continue\<close> and the time left in today's window, in
  microseconds; \<open>None\<close> stands for \<^verbatim>\<open>float('inf')\<close>. The message is left out.
\<close>

definition calculate_remaining_time_today :: "user_body option \<Rightarrow> int \<Rightarrow> bool \<times> int option" where
  "calculate_remaining_time_today user_data now =
     (case user_data of
        None \<Rightarrow> (True, None)
      | Some u \<Rightarrow>
          if \<not> flag (schedule_enabled u) then (True, None)
          else
            (case strptime_time (start_time_str u) of
               None \<Rightarrow> (True, None)
             | Some start_time \<Rightarrow>
                 (case strptime_time (end_time_str u) of
                    None \<Rightarrow> (True, None)
                  | Some end_time \<Rightarrow>
                      (let current_time_only = time_of_day now in
                       if start_time \<le> end_time then
                         (if current_time_only < start_time then (False, Some 0)
                          else if current_time_only > end_time then (False, Some 0)
                          else (True, Some (midnight now + end_time - now)))
                       else
                         (if current_time_only \<ge> start_time
                          then (True, Some (midnight now + day_us + end_time - now))
                          else if current_time_only \<le> end_time
                          then (True, Some (midnight now + end_time - now))
                          else (False, Some 0))))))"

section \<open>Pre-broadcast analysis (main.py, \<^verbatim>\<open>run_broadcast\<close>)\<close>

text \<open>
  The entries of the target lists are dictionaries with the keys \<^verbatim>\<open>id\<close>,
  \<^verbatim>\<open>title\<close>, \<^verbatim>\<open>is_forum\<close> and \<^verbatim>\<open>topics\<close>. One path of \<^verbatim>\<open>check_group\<close>
  hands back the stored target document instead, which has no \<^verbatim>\<open>id\<close> key: \<open>gid\<close>
  is \<open>None\<close> for it (its \<open>title\<close> then holds the document's \<^verbatim>\<open>group_name\<close>; the
  engine never gets to read it, see \<open>account_groups\<close>).
\<close>

record topic =
  topic_id :: int
  topic_title :: string
  topic_closed :: bool

record group =
  gid :: "int option"
  title :: string
  is_forum :: bool
  topics :: "topic list"

record restricted =
  r_id :: int
  r_title :: string
  r_reason :: string

text \<open>
  What the Telegram client answers when \<^verbatim>\<open>check_group\<close> resolves a group: the
  entity (its title when it has one, its forum flag, the topics of
  \<^verbatim>\<open>GetForumTopicsRequest\<close> or \<open>None\<close> when that request raised, and whether
  \<^verbatim>\<open>default_banned_rights.send_messages\<close> is set), or the exception raised.
\<close>

datatype remote_topic = ForumTopic int string bool | ForumTopicDeleted int

record entity =
  e_title :: "string option"
  e_forum :: bool
  e_topics :: "remote_topic list option"
  e_send_banned :: bool

datatype lookup = Found entity | ChatWriteForbiddenError | ValueError | OtherLookupError

datatype check_result = Usable group | Restricted restricted

definition open_topics :: "remote_topic list \<Rightarrow> topic list" where
  "open_topics ts =
     concat (map (\<lambda>t. case t of
                         ForumTopic i name is_closed \<Rightarrow>
                           if is_closed then []
                           else [\<lparr>topic_id = i, topic_title = name, topic_closed = False\<rparr>]
                       | ForumTopicDeleted i \<Rightarrow> []) ts)"

definition doc_title :: "group_body doc \<Rightarrow> string" where
  "doc_title g = (if group_name (body g) = [] then ''Unknown Group'' else group_name (body g))"

text \<open>
  \<^verbatim>\<open>check_group\<close>, the closure defined inside \<^verbatim>\<open>run_broadcast\<close>. Its result is a
  pair with exactly one component set: a usable entry or a restricted one with a reason.
  On an unexpected exception it returns the stored document itself as usable.
\<close>

definition check_group :: "string \<Rightarrow> group_body doc \<Rightarrow> lookup \<Rightarrow> check_result" where
  "check_group mode g answer =
     (case answer of
        Found e \<Rightarrow>
          (let group_title = (case e_title e of Some t \<Rightarrow> t | None \<Rightarrow> doc_title g) in
           if mode = ''forums_only'' \<and> \<not> e_forum e
           then Restricted \<lparr>r_id = group_id (body g), r_title = group_title,
                            r_reason = ''Not a forum (Forum Only Mode)''\<rparr>
           else
             (let found_topics =
                    (if e_forum e
                     then (case e_topics e of Some ts \<Rightarrow> open_topics ts | None \<Rightarrow> [])
                     else [])
              in if e_send_banned e
                 then Restricted \<lparr>r_id = group_id (body g), r_title = group_title,
                                  r_reason = ''No send permission''\<rparr>
                 else Usable \<lparr>gid = Some (group_id (body g)), title = group_title,
                              is_forum = e_forum e, topics = found_topics\<rparr>))
      | ChatWriteForbiddenError \<Rightarrow>
          Restricted \<lparr>r_id = group_id (body g), r_title = doc_title g,
                      r_reason = ''Write forbidden''\<rparr>
      | ValueError \<Rightarrow>
          Restricted \<lparr>r_id = group_id (body g), r_title = doc_title g,
                      r_reason = ''Not a member''\<rparr>
      | OtherLookupError \<Rightarrow>
          Usable \<lparr>gid = None, title = group_name (body g), is_forum = False, topics = []\<rparr>)"

text \<open>The groups loaded for a mode, before the analysis.\<close>

definition load_target_groups :: "database \<Rightarrow> int \<Rightarrow> string \<Rightarrow> group_body doc list" where
  "load_target_groups db uid mode =
     (if mode = ''forums_only'' then get_forum_groups db uid else get_target_groups db uid)"

text \<open>
  The results are sorted into \<^verbatim>\<open>usable_groups\<close> and \<^verbatim>\<open>restricted_groups\<close>; a
  restricted group re-enters \<^verbatim>\<open>all_groups_combined\<close> as a non-forum entry without
  topics; then the mode filter is applied to the combined list.
\<close>

definition usable_groups :: "check_result list \<Rightarrow> group list" where
  "usable_groups results = concat (map (\<lambda>r. case r of Usable g \<Rightarrow> [g] | Restricted x \<Rightarrow> []) results)"

definition restricted_groups :: "check_result list \<Rightarrow> restricted list" where
  "restricted_groups results =
     concat (map (\<lambda>r. case r of Usable g \<Rightarrow> [] | Restricted x \<Rightarrow> [x]) results)"

definition as_target :: "restricted \<Rightarrow> group" where
  "as_target r = \<lparr>gid = Some (r_id r), title = r_title r, is_forum = False, topics = []\<rparr>"

definition mode_filter :: "string \<Rightarrow> group list \<Rightarrow> group list" where
  "mode_filter mode gs =
     (if mode = ''groups_only'' then filter (\<lambda>g. \<not> is_forum g) gs
      else if mode = ''forums_only'' then filter (\<lambda>g. is_forum g) gs
      else gs)"

definition all_groups_combined :: "string \<Rightarrow> check_result list \<Rightarrow> group list" where
  "all_groups_combined mode results =
     mode_filter mode (usable_groups results @ map as_target (restricted_groups results))"

subsection \<open>\<^verbatim>\<open>analyze_account_groups_fast\<close>\<close>

text \<open>
  An attribute of a Telegram object may be absent (\<^verbatim>\<open>hasattr\<close> is false), hold
  \<^verbatim>\<open>None\<close>, or hold a value. Comparing \<^verbatim>\<open>None\<close> with a number raises, and the
  function then keeps the dialog as usable. The engine calls the function with an empty
  \<^verbatim>\<open>skip_group_ids\<close>, so that test never skips a dialog.
\<close>

datatype 'a attr = Absent | NoneValue | Value 'a

record dialog =
  d_id :: int
  d_is_group :: bool
  d_slowmode_seconds :: "int attr"
  d_participants_count :: "int attr"

definition dialog_usable :: "int list \<Rightarrow> dialog \<Rightarrow> bool" where
  "dialog_usable target_group_ids d =
     (if \<not> d_is_group d then False
      else if target_group_ids \<noteq> [] \<and> d_id d \<notin> set target_group_ids then False
      else
        (case d_slowmode_seconds d of
           NoneValue \<Rightarrow> True
         | Value n \<Rightarrow>
             if n > 0 then False
             else (case d_participants_count d of Value p \<Rightarrow> \<not> p > 200000 | _ \<Rightarrow> True)
         | Absent \<Rightarrow> (case d_participants_count d of Value p \<Rightarrow> \<not> p > 200000 | _ \<Rightarrow> True)))"

text \<open>
  The identifiers of the \<^verbatim>\<open>usable_groups\<close> of the result; the argument is the
  account's dialogs, \<open>None\<close> when \<^verbatim>\<open>get_dialogs\<close> raised (the result is then empty).
\<close>

definition analyze_account_groups_fast :: "int list \<Rightarrow> dialog list option \<Rightarrow> int list" where
  "analyze_account_groups_fast target_group_ids dialogs =
     (case dialogs of
        None \<Rightarrow> []
      | Some ds \<Rightarrow> map d_id (filter (dialog_usable target_group_ids) ds))"

text \<open>
  The groups assigned to an account: the entries of the combined list whose
  \<^verbatim>\<open>id\<close> is among the account's accessible ids. \<^verbatim>\<open>group["id"]\<close> raises
  \<^verbatim>\<open>KeyError\<close> on an entry without that key, which ends the whole broadcast.
\<close>

datatype key_error = KeyError

fun account_groups :: "int list \<Rightarrow> group list \<Rightarrow> key_error + group list" where
  "account_groups accessible_group_ids [] = Inr []"
| "account_groups accessible_group_ids (g # gs) =
     (case gid g of
        None \<Rightarrow> Inl KeyError
      | Some i \<Rightarrow>
          (case account_groups accessible_group_ids gs of
             Inl e \<Rightarrow> Inl e
           | Inr rest \<Rightarrow> Inr (if i \<in> set accessible_group_ids then g # rest else rest)))"

section \<open>The broadcast cycle engine (main.py, \<^verbatim>\<open>run_broadcast\<close>)\<close>

subsection \<open>What the outside world answers\<close>

text \<open>
  The exceptions a forward can raise, by the \<^verbatim>\<open>except\<close> clause that catches them:
  \<^verbatim>\<open>FloodWait\<close> with its attributes \<^verbatim>\<open>value\<close> and \<^verbatim>\<open>x\<close> (0 stands for an
  absent attribute, as \<^verbatim>\<open>getattr(e, "value", 0)\<close> reads it), \<^verbatim>\<open>RPCError\<close> with its
  message, and any other \<^verbatim>\<open>Exception\<close> with its message. The two names come from
  two libraries: \<^verbatim>\<open>FloodWait\<close> is imported from \<^verbatim>\<open>pyrogram.errors\<close> and
  \<^verbatim>\<open>RPCError\<close> from \<^verbatim>\<open>telethon.errors\<close>. The forwards of the engine are made through
  a Telethon \<^verbatim>\<open>TelegramClient\<close>, whose rate-limit exception, \<^verbatim>\<open>FloodWaitError\<close>, is an
  \<^verbatim>\<open>RPCError\<close> and no \<^verbatim>\<open>FloodWait\<close>: it is the value \<open>RPCError m\<close> with the message
  \<open>m\<close> that names the seconds to wait.
\<close>

datatype exn = FloodWait int int | RPCError string | OtherException string

datatype forward_result = Sent | Failed exn

record message =
  m_id :: int
  m_text :: bool
  m_media :: bool

text \<open>
  One visit of a group: the Saved Messages read (\<open>None\<close> when the read raised), whether
  \<^verbatim>\<open>get_entity\<close> resolved the group, the result of the single forward to a regular
  target, and the result of the forward into each topic of a forum.
\<close>

record visit_env =
  saved_messages :: "message list option"
  entity_resolves :: bool
  forward :: forward_result
  topic_forward :: "int \<Rightarrow> forward_result"

subsection \<open>Substring tests on error messages\<close>

fun is_prefix :: "string \<Rightarrow> string \<Rightarrow> bool" where
  "is_prefix [] ys = True"
| "is_prefix (x # xs) [] = False"
| "is_prefix (x # xs) (y # ys) = (x = y \<and> is_prefix xs ys)"

text \<open>\<open>contains k s\<close> is Python's \<^verbatim>\<open>k in s\<close> on strings.\<close>

fun contains :: "string \<Rightarrow> string \<Rightarrow> bool" where
  "contains k [] = (k = [])"
| "contains k (c # cs) = (if is_prefix k (c # cs) then True else contains k cs)"

definition is_permanent :: "string \<Rightarrow> bool" where
  "is_permanent err =
     list_ex (\<lambda>k. contains k err) [''banned'', ''forbidden'', ''kicked'', ''rights'', ''not enough'']"

subsection \<open>Engine state\<close>

text \<open>
  The message forwarded: the fixed post of a post link, or one of the Saved Messages.
\<close>

datatype source = FromPostLink peer int | FromSaved message

text \<open>
  The observable actions, in order: a call of \<^verbatim>\<open>forward_messages\<close> (account, group,
  topic, message), a call of \<^verbatim>\<open>asyncio.sleep\<close> (seconds), and the cycle summary
  (cycle number, sent and failed counts, number of the next message).
\<close>

datatype event =
    Forward int "int option" "int option" source
  | Sleep int
  | CycleCompleted int int int int

record config =
  cfg_uid :: int
  cfg_delay :: int
  cfg_group_msg_delay :: int
  cfg_cycle_timeout :: int

record engine =
  edb :: database
  sent_count :: int
  failed_count :: int
  cycle_count :: int
  current_cycle :: int
  working_groups_map :: "int \<rightharpoonup> group list"
  trace :: "event list"

subsection \<open>Message selection\<close>

definition peer_truthy :: "peer option \<Rightarrow> bool" where
  "peer_truthy p = (case p of None \<Rightarrow> False | Some (PeerName n) \<Rightarrow> n \<noteq> [] | Some (PeerId i) \<Rightarrow> i \<noteq> 0)"

definition use_post_link :: "post_link_data option \<Rightarrow> bool" where
  "use_post_link d = (case d of None \<Rightarrow> False | Some p \<Rightarrow> pl_message_source p = ''post_link'')"

text \<open>
  The message for one visit, or \<open>None\<close> where the loop body \<^verbatim>\<open>continue\<close>s before any
  send: post-link data without peer or message id, no Saved Messages, or an exception
  while reading them. The Saved Messages that have text or media are put in chronological
  order and cut to the user's count; the rotation index picks one.
\<close>

definition prepare_message :: "database \<Rightarrow> int \<Rightarrow> int \<Rightarrow> message list option \<Rightarrow> source option" where
  "prepare_message d u cur msgs =
     (let post_link_data = get_user_post_link d u in
      if use_post_link post_link_data then
        (case post_link_data of
           None \<Rightarrow> None
         | Some p \<Rightarrow>
             (case (pl_saved_from_peer p, pl_saved_msg_id p) of
                (Some pr, Some mid) \<Rightarrow>
                  if peer_truthy (Some pr) \<and> mid \<noteq> 0 then Some (FromPostLink pr mid) else None
              | _ \<Rightarrow> None))
      else
        (case msgs of
           None \<Rightarrow> None
         | Some ms \<Rightarrow>
             (let saved_msgs_list = filter (\<lambda>m. m_text m \<or> m_media m) ms in
              if saved_msgs_list = [] then None
              else
                (let chosen = take (nat (get_user_saved_messages_count d u)) (rev saved_msgs_list) in
                 case py_mod cur (int (length chosen)) of
                   None \<Rightarrow> None
                 | Some msg_index \<Rightarrow> Some (FromSaved (chosen ! nat msg_index))))))"

subsection \<open>One visit of a group\<close>

text \<open>
  The topic loop of a forum target. A closed topic is skipped. A forward that returns
  counts as sent (locally and in the analytics) and is followed by the per-group delay; a
  forward that raises is counted in \<^verbatim>\<open>topics_failed\<close> only, which is local to the
  visit, and is followed by a sleep of 2 seconds.
\<close>

fun send_topics :: "config \<Rightarrow> (int \<Rightarrow> forward_result) \<Rightarrow> int \<Rightarrow> group \<Rightarrow> source \<Rightarrow>
    topic list \<Rightarrow> engine \<Rightarrow> engine" where
  "send_topics c tf acc g src [] s = s"
| "send_topics c tf acc g src (t # ts) s =
     (if topic_closed t then send_topics c tf acc g src ts s
      else
        (case tf (topic_id t) of
           Sent \<Rightarrow>
             send_topics c tf acc g src ts
               (s\<lparr>sent_count := sent_count s + 1,
                  edb := increment_broadcast_stats (edb s) (cfg_uid c) True,
                  trace := trace s @ [Forward acc (gid g) (Some (topic_id t)) src,
                                      Sleep (cfg_group_msg_delay c)]\<rparr>)
         | Failed e \<Rightarrow>
             send_topics c tf acc g src ts
               (s\<lparr>trace := trace s @ [Forward acc (gid g) (Some (topic_id t)) src, Sleep 2]\<rparr>)))"

text \<open>\<^verbatim>\<open>working_groups.remove(group)\<close> on the account's list; a missing group is ignored.\<close>

definition remove_group :: "int \<Rightarrow> group \<Rightarrow> (int \<rightharpoonup> group list) \<Rightarrow> (int \<rightharpoonup> group list)" where
  "remove_group acc g m = (case m acc of None \<Rightarrow> m | Some ws \<Rightarrow> m(acc \<mapsto> remove1 g ws))"

text \<open>\<^verbatim>\<open>int(getattr(e, "value", 0) or getattr(e, "x", 0) or 1)\<close>.\<close>

definition wait_time :: "int \<Rightarrow> int \<Rightarrow> int" where
  "wait_time v x = (if v \<noteq> 0 then v else if x \<noteq> 0 then x else 1)"

text \<open>
  The body of \<^verbatim>\<open>for group in working_groups[:]\<close> after the running check, for the
  account \<open>acc\<close> and the group \<open>g\<close>.
\<close>

definition visit_group :: "config \<Rightarrow> visit_env \<Rightarrow> int \<Rightarrow> group \<Rightarrow> engine \<Rightarrow> engine" where
  "visit_group c env acc g s =
     (case prepare_message (edb s) (cfg_uid c) (current_cycle s) (saved_messages env) of
        None \<Rightarrow> s
      | Some src \<Rightarrow>
          if gid g = None then s\<lparr>failed_count := failed_count s + 1\<rparr>
          else if \<not> entity_resolves env then s\<lparr>failed_count := failed_count s + 1\<rparr>
          else if is_forum g \<and> topics g \<noteq> [] then
            (let s' = send_topics c (topic_forward env) acc g src (topics g) s in
             s'\<lparr>trace := trace s' @ [Sleep (cfg_group_msg_delay c)]\<rparr>)
          else
            (case forward env of
               Sent \<Rightarrow>
                 s\<lparr>sent_count := sent_count s + 1,
                    edb := increment_broadcast_stats (edb s) (cfg_uid c) True,
                    trace := trace s @ [Forward acc (gid g) None src, Sleep (cfg_group_msg_delay c)]\<rparr>
             | Failed (FloodWait v x) \<Rightarrow>
                 s\<lparr>failed_count := failed_count s + 1,
                    trace := trace s @ [Forward acc (gid g) None src, Sleep (wait_time v x + 2)]\<rparr>
             | Failed (RPCError error_msg) \<Rightarrow>
                 s\<lparr>failed_count := failed_count s + 1,
                    trace := trace s @ [Forward acc (gid g) None src]\<rparr>
             | Failed (OtherException error_msg) \<Rightarrow>
                 (let s' = s\<lparr>failed_count := failed_count s + 1,
                              trace := trace s @ [Forward acc (gid g) None src]\<rparr>
                  in if is_permanent (lower error_msg)
                     then s'\<lparr>working_groups_map := remove_group acc g (working_groups_map s')\<rparr>
                     else s')))"

subsection \<open>One cycle\<close>

text \<open>
  The world answers each visit: \<open>w n acc g\<close> is what the visit of group \<open>g\<close> by account
  \<open>acc\<close> meets in cycle \<open>n\<close>. Before every visit the engine reads the running flag and
  raises \<^verbatim>\<open>CancelledError("Stopped by user")\<close> when it is off.
\<close>

datatype interrupted = CancelledError engine

fun run_groups :: "config \<Rightarrow> (int \<Rightarrow> int \<Rightarrow> group \<Rightarrow> visit_env) \<Rightarrow> int \<Rightarrow> group list \<Rightarrow>
    engine \<Rightarrow> interrupted + engine" where
  "run_groups c w acc [] s = Inr s"
| "run_groups c w acc (g # gs) s =
     (if \<not> state_running (get_broadcast_state (edb s) (cfg_uid c)) then Inl (CancelledError s)
      else run_groups c w acc gs (visit_group c (w (cycle_count s) acc g) acc g s))"

text \<open>
  The accounts in order; an account without a connected client is skipped; the loop
  walks a copy of the account's working list taken when the account's turn starts.
\<close>

definition working_groups :: "engine \<Rightarrow> int \<Rightarrow> group list" where
  "working_groups s acc = (case working_groups_map s acc of None \<Rightarrow> [] | Some ws \<Rightarrow> ws)"

fun run_accounts :: "config \<Rightarrow> (int \<Rightarrow> int \<Rightarrow> group \<Rightarrow> visit_env) \<Rightarrow> int list \<Rightarrow>
    account_body doc list \<Rightarrow> engine \<Rightarrow> interrupted + engine" where
  "run_accounts c w clients [] s = Inr s"
| "run_accounts c w clients (a # as) s =
     (if account_id (body a) \<in> set clients then
        (case run_groups c w (account_id (body a)) (working_groups s (account_id (body a))) s of
           Inl e \<Rightarrow> Inl e
         | Inr s' \<Rightarrow> run_accounts c w clients as s')
      else run_accounts c w clients as s)"

text \<open>
  After the pass: the cycle is counted and the rotation pointer advanced
  (\<^verbatim>\<open>increment_broadcast_cycle\<close>), the pointer is read back, the summary is logged,
  every fifth cycle sleeps the cooldown, and every cycle sleeps the cycle interval.
\<close>

definition finish_cycle :: "config \<Rightarrow> engine \<Rightarrow> engine" where
  "finish_cycle c s =
     (let d = increment_broadcast_cycle (edb s) (cfg_uid c);
          cur = get_current_ad_cycle d (cfg_uid c);
          next_msg_num = cur mod get_user_saved_messages_count d (cfg_uid c) + 1
      in s\<lparr>edb := d,
           current_cycle := cur,
           trace := trace s
             @ [CycleCompleted (cycle_count s) (sent_count s) (failed_count s) next_msg_num]
             @ (if cycle_count s mod 5 = 0 then [Sleep (cfg_cycle_timeout c)] else [])
             @ [Sleep (cfg_delay c)]\<rparr>)"

subsection \<open>The loop\<close>

text \<open>
  One iteration of \<^verbatim>\<open>while db.get_broadcast_state(uid).get("running", False)\<close>, with
  the two clock readings it takes (for the end-of-window deadline and for the schedule
  check). \<open>Break\<close> leaves the loop, \<open>Continue\<close> goes to the next iteration,
  \<open>Interrupted\<close> is the \<^verbatim>\<open>CancelledError\<close> on its way out.
\<close>

datatype step = Break engine | Continue engine | Interrupted engine

definition loop_iteration :: "config \<Rightarrow> (int \<Rightarrow> int \<Rightarrow> group \<Rightarrow> visit_env) \<Rightarrow> int list \<Rightarrow>
    account_body doc list \<Rightarrow> int option \<Rightarrow> int \<times> int \<Rightarrow> engine \<Rightarrow> step" where
  "loop_iteration c w clients accs deadline now s =
     (if \<not> state_running (get_broadcast_state (edb s) (cfg_uid c)) then Break s
      else if (case deadline of None \<Rightarrow> False | Some t \<Rightarrow> fst now \<ge> t)
        then Break (s\<lparr>edb := set_broadcast_state (edb s) (cfg_uid c) False False\<rparr>)
      else if \<not> fst (is_within_schedule (get_user (edb s) (cfg_uid c)) (snd now))
        then Continue (s\<lparr>trace := trace s @ [Sleep 300]\<rparr>)
      else
        (case run_accounts c w clients accs (s\<lparr>cycle_count := cycle_count s + 1\<rparr>) of
           Inl (CancelledError s') \<Rightarrow> Interrupted s'
         | Inr s' \<Rightarrow> Continue (finish_cycle c s')))"



section \<open>Start and stop requests (main.py)\<close>

text \<open>
  The handlers share the store and the dictionary \<^verbatim>\<open>user_tasks\<close>, which maps a user
  to the broadcast task created for that user; the value kept here is what
  \<^verbatim>\<open>task.done()\<close> answers. Cancelling and awaiting a task lets the task run its own
  exit path, which may write to the store: \<open>task_exit\<close> stands for those writes,
  whatever they are.
\<close>

record bot =
  bdb :: database
  user_tasks :: "int \<rightharpoonup> bool"

text \<open>
  \<^verbatim>\<open>stop_broadcast_task\<close>: nothing is done, and \<^verbatim>\<open>False\<close> returned, when the stored
  state is not running. Otherwise the rotation pointer is reset, a task found in
  \<^verbatim>\<open>user_tasks\<close> is cancelled, awaited and dropped, and \<^verbatim>\<open>running=False\<close> is
  written.
\<close>

definition stop_broadcast_task :: "(database \<Rightarrow> database) \<Rightarrow> bot \<Rightarrow> int \<Rightarrow> bot \<times> bool" where
  "stop_broadcast_task task_exit b u =
     (if \<not> state_running (get_broadcast_state (bdb b) u) then (b, False)
      else
        (let d1 = reset_ad_cycle (bdb b) u;
             d2 = (case user_tasks b u of None \<Rightarrow> d1 | Some t \<Rightarrow> task_exit d1)
         in (\<lparr>bdb = set_broadcast_state d2 u False False,
              user_tasks = (user_tasks b)(u := None)\<rparr>,
             True)))"

text \<open>
  A handler that awaits a reply to the user hands the event loop to the other tasks,
  among them the broadcast task that \<^verbatim>\<open>user_tasks\<close> holds for the user, when that task
  is not done. As far as the running flag goes, such a task does one of three things
  before the handler resumes. It writes nothing (\<open>NoProgress\<close>). Or it comes out of its
  preparation and reaches \<^verbatim>\<open>db.set_broadcast_state(uid, running=True)\<close>, the write in
  front of the loop, which is made without reading the state (\<open>ReachesLoop\<close>). Or, from
  inside the loop, it reads the state and, finding it not running, leaves through the
  \<^verbatim>\<open>finally\<close> block, which writes \<^verbatim>\<open>running=False\<close> and deletes the entry of
  \<^verbatim>\<open>user_tasks\<close> (\<open>ChecksState\<close>).
\<close>

datatype task_progress = NoProgress | ReachesLoop | ChecksState

definition task_runs :: "task_progress \<Rightarrow> bot \<Rightarrow> int \<Rightarrow> bot" where
  "task_runs progress b u =
     (case user_tasks b u of
        None \<Rightarrow> b
      | Some finished \<Rightarrow>
          if finished then b
          else
            (case progress of
               NoProgress \<Rightarrow> b
             | ReachesLoop \<Rightarrow> b\<lparr>bdb := set_broadcast_state (bdb b) u True False\<rparr>
             | ChecksState \<Rightarrow>
                 if state_running (get_broadcast_state (bdb b) u) then b
                 else \<lparr>bdb = set_broadcast_state (bdb b) u False False,
                       user_tasks = (user_tasks b)(u := None)\<rparr>))"

text \<open>
  \<^verbatim>\<open>/stop\<close>: the state is written as stopped first, then \<^verbatim>\<open>stop_broadcast_task\<close> is
  called, and the handler awaits the reply that reports the boolean; a task still held
  in \<^verbatim>\<open>user_tasks\<close> runs during that await.
\<close>

definition stop_command ::
    "(database \<Rightarrow> database) \<Rightarrow> task_progress \<Rightarrow> bot \<Rightarrow> int \<Rightarrow> bot \<times> bool" where
  "stop_command task_exit progress b u =
     (let r = stop_broadcast_task task_exit
                (b\<lparr>bdb := set_broadcast_state (bdb b) u False False\<rparr>) u
      in (task_runs progress (fst r) u, snd r))"

text \<open>
  The stop-broadcast button calls \<^verbatim>\<open>stop_broadcast_task\<close> directly, and then awaits
  its answer to the user.
\<close>

definition stop_broadcast_callback ::
    "(database \<Rightarrow> database) \<Rightarrow> task_progress \<Rightarrow> bot \<Rightarrow> int \<Rightarrow> bot \<times> bool" where
  "stop_broadcast_callback task_exit progress b u =
     (let r = stop_broadcast_task task_exit b u in (task_runs progress (fst r) u, snd r))"

text \<open>How a start request ends: one of the refusals, or a new task.\<close>

datatype start_reply =
    PostLinkNotSet
  | AlreadyRunning
  | NotEnoughSavedMessages
  | NoAccounts
  | LoggerNotStarted
  | TaskExists
  | Started

text \<open>
  \<^verbatim>\<open>/go\<close>: refused without accounts or when the state is running; otherwise the state
  is written as running, and a task is created unless an unfinished one exists.
\<close>

definition go_command :: "bot \<Rightarrow> int \<Rightarrow> bot \<times> start_reply" where
  "go_command b u =
     (if get_user_accounts (bdb b) u = [] then (b, NoAccounts)
      else if state_running (get_broadcast_state (bdb b) u) then (b, AlreadyRunning)
      else
        (let b1 = b\<lparr>bdb := set_broadcast_state (bdb b) u True False\<rparr> in
         if (case user_tasks b1 u of None \<Rightarrow> False | Some finished \<Rightarrow> \<not> finished)
         then (b1, TaskExists)
         else (b1\<lparr>user_tasks := (user_tasks b1)(u \<mapsto> False)\<rparr>, Started)))"

definition str_truthy :: "string option \<Rightarrow> bool" where
  "str_truthy v = (case v of None \<Rightarrow> False | Some t \<Rightarrow> t \<noteq> [])"

definition int_truthy :: "int option \<Rightarrow> bool" where
  "int_truthy v = (case v of None \<Rightarrow> False | Some n \<Rightarrow> n \<noteq> 0)"

text \<open>
  The start-broadcast button. \<open>saved_available\<close> is the number of Saved Messages with
  text or media that the first account could read, \<open>None\<close> when the read was skipped
  (no credentials) or raised. The logger gate reads
  \<^verbatim>\<open>if not db.get_logger_status(uid)\<close>: the truth value of the returned dictionary.
\<close>

definition start_broadcast_callback ::
    "(database \<Rightarrow> database) \<Rightarrow> nat option \<Rightarrow> bot \<Rightarrow> int \<Rightarrow> bot \<times> start_reply" where
  "start_broadcast_callback task_exit saved_available b u =
     (let post_link_data = get_user_post_link (bdb b) u in
      if use_post_link post_link_data \<and>
         (case post_link_data of
            None \<Rightarrow> False
          | Some p \<Rightarrow>
              (if str_truthy (pl_post_link p) then \<not> int_truthy (pl_saved_msg_id p) else True))
      then (b, PostLinkNotSet)
      else if state_running (get_broadcast_state (bdb b) u) then (b, AlreadyRunning)
      else if get_user_accounts (bdb b) u \<noteq> [] \<and>
              (case saved_available of
                 None \<Rightarrow> False
               | Some n \<Rightarrow> int n < get_user_saved_messages_count (bdb b) u)
      then (b, NotEnoughSavedMessages)
      else if get_user_accounts (bdb b) u = [] then (b, NoAccounts)
      else if \<not> dict_truthy (get_logger_status (bdb b) u) then (b, LoggerNotStarted)
      else
        (let d1 = (case user_tasks b u of None \<Rightarrow> bdb b | Some t \<Rightarrow> task_exit (bdb b))
         in (\<lparr>bdb = set_broadcast_state d1 u True False,
              user_tasks = (user_tasks b)(u \<mapsto> False)\<rparr>,
             Started)))"

subsection \<open>Notions used to state the engine's properties\<close>

text \<open>
  A visit \<open>reaches the forward\<close> when it gets as far as the single
  \<^verbatim>\<open>forward_messages\<close> call for a regular target: a message was prepared, the entry
  has an id, \<^verbatim>\<open>get_entity\<close> resolved it, and the entry is not a forum with topics.
\<close>

definition reaches_forward :: "config \<Rightarrow> visit_env \<Rightarrow> group \<Rightarrow> engine \<Rightarrow> bool" where
  "reaches_forward c env g s =
     (prepare_message (edb s) (cfg_uid c) (current_cycle s) (saved_messages env) \<noteq> None
      \<and> gid g \<noteq> None \<and> entity_resolves env \<and> (topics g = [] \<or> \<not> is_forum g))"


text \<open>The analytics counters of a user, as the views read them.\<close>

definition total_sent_of :: "database \<Rightarrow> int \<Rightarrow> int" where
  "total_sent_of d u = counter (total_sent (get_user_analytics d u))"

definition total_failed_of :: "database \<Rightarrow> int \<Rightarrow> int" where
  "total_failed_of d u = counter (total_failed (get_user_analytics d u))"

text \<open>The engine state a pass or an iteration ends in, however it ends.\<close>

definition state_of :: "interrupted + engine \<Rightarrow> engine" where
  "state_of r = (case r of Inl (CancelledError s) \<Rightarrow> s | Inr s \<Rightarrow> s)"

definition step_state :: "step \<Rightarrow> engine" where
  "step_state r = (case r of Break s \<Rightarrow> s | Continue s \<Rightarrow> s | Interrupted s \<Rightarrow> s)"

section \<open>Example inputs\<close>

text \<open>Concrete stores and handler states on which the properties below are run.\<close>

definition db_four_messages :: database where
  "db_four_messages =
     empty_db\<lparr>users := [\<lparr>user_id = 7, body = empty_user\<lparr>saved_messages_count := Some 4\<rparr>\<rparr>]\<rparr>"

definition db_with_forum :: database where
  "db_with_forum =
     empty_db\<lparr>users := [\<lparr>user_id = 7, body = empty_user\<rparr>],
              forum_groups := [\<lparr>user_id = 7, body = \<lparr>group_id = 1001, group_name = ''Forum''\<rparr>\<rparr>],
              target_groups := [\<lparr>user_id = 7, body = \<lparr>group_id = 1002, group_name = ''Group''\<rparr>\<rparr>]\<rparr>"

definition bot_running :: bot where
  "bot_running =
     \<lparr>bdb = set_broadcast_state empty_db 7 True False, user_tasks = [7 \<mapsto> False]\<rparr>"


definition bot_without_logger :: bot where
  "bot_without_logger =
     \<lparr>bdb = empty_db
        \<lparr>accounts := [\<lparr>user_id = 7, body = \<lparr>account_id = 1, phone_number = ''+10000000000''\<rparr>\<rparr>],
         logger_status :=
           [\<lparr>user_id = 7, body = \<lparr>is_started = Some False, is_active = Some False\<rparr>\<rparr>]\<rparr>,
      user_tasks = Map.empty\<rparr>"

definition example_config :: config where
  "example_config = \<lparr>cfg_uid = 7, cfg_delay = 60, cfg_group_msg_delay = 5, cfg_cycle_timeout = 600\<rparr>"




text \<open>
  The end-to-end scenario of the specification: one linked account, two selected groups,
  saved-message count 1, cycle interval 60 s, per-group delay 5 s. The world answers the
  forward to the second group with \<open>r\<close> and every other call with success.
\<close>

definition one_message :: message where
  "one_message = \<lparr>m_id = 1, m_text = True, m_media = False\<rparr>"

definition open_group :: group where
  "open_group = \<lparr>gid = Some 101, title = ''Open'', is_forum = False, topics = []\<rparr>"

definition denied_group :: group where
  "denied_group = \<lparr>gid = Some 102, title = ''Denied'', is_forum = False, topics = []\<rparr>"

definition scenario_account :: "account_body doc" where
  "scenario_account = \<lparr>user_id = 7, body = \<lparr>account_id = 1, phone_number = ''+10000000000''\<rparr>\<rparr>"

definition scenario_db :: database where
  "scenario_db =
     set_broadcast_state
       (empty_db\<lparr>users := [\<lparr>user_id = 7, body = empty_user\<lparr>saved_messages_count := Some 1\<rparr>\<rparr>],
                 accounts := [scenario_account]\<rparr>)
       7 True False"

definition scenario_engine :: engine where
  "scenario_engine =
     \<lparr>edb = scenario_db, sent_count = 0, failed_count = 0, cycle_count = 0, current_cycle = 0,
      working_groups_map = [1 \<mapsto> [denied_group, open_group]], trace = []\<rparr>"

definition env_with :: "forward_result \<Rightarrow> visit_env" where
  "env_with r =
     \<lparr>saved_messages = Some [one_message], entity_resolves = True, forward = r,
      topic_forward = (\<lambda>t. Sent)\<rparr>"

definition world_with :: "forward_result \<Rightarrow> int \<Rightarrow> int \<Rightarrow> group \<Rightarrow> visit_env" where
  "world_with r n acc g = env_with (if gid g = Some 102 then r else Sent)"

text \<open>
  The rate limit of the sending client: Telethon's \<^verbatim>\<open>FloodWaitError\<close> for a wait of 300
  seconds, with the message the library gives it. A forum with one open topic, and a
  working set that holds the forum after the two groups.
\<close>

definition flood_wait_error_300 :: exn where
  "flood_wait_error_300 =
     RPCError ''A wait of 300 seconds is required (caused by ForwardMessagesRequest)''"

definition forum_group :: group where
  "forum_group =
     \<lparr>gid = Some 103, title = ''Forum'', is_forum = True,
      topics = [\<lparr>topic_id = 11, topic_title = ''News'', topic_closed = False\<rparr>]\<rparr>"

definition limited_world :: "int \<Rightarrow> int \<Rightarrow> group \<Rightarrow> visit_env" where
  "limited_world n acc g =
     \<lparr>saved_messages = Some [one_message], entity_resolves = True,
      forward = (if gid g = Some 102 then Failed flood_wait_error_300 else Sent),
      topic_forward = (\<lambda>t. Failed flood_wait_error_300)\<rparr>"

definition limited_engine :: engine where
  "limited_engine =
     scenario_engine\<lparr>working_groups_map := [1 \<mapsto> [denied_group, open_group, forum_group]]\<rparr>"

text \<open>
  Two selected groups as the analysis meets them: the first is one the account may not
  write to, the second is an ordinary group.
\<close>

definition target_doc_5 :: "group_body doc" where
  "target_doc_5 = \<lparr>user_id = 7, body = \<lparr>group_id = 5, group_name = ''Closed shop''\<rparr>\<rparr>"

definition target_doc_6 :: "group_body doc" where
  "target_doc_6 = \<lparr>user_id = 7, body = \<lparr>group_id = 6, group_name = ''Market''\<rparr>\<rparr>"

definition plain_entity :: entity where
  "plain_entity = \<lparr>e_title = Some ''Market'', e_forum = False, e_topics = None, e_send_banned = False\<rparr>"

definition checks_with :: "lookup \<Rightarrow> check_result list" where
  "checks_with answer =
     [check_group ''both'' target_doc_5 answer, check_group ''both'' target_doc_6 (Found plain_entity)]"

definition restricted_5 :: "string \<Rightarrow> restricted" where
  "restricted_5 reason = \<lparr>r_id = 5, r_title = ''Closed shop'', r_reason = reason\<rparr>"

definition dialog_of :: "int \<Rightarrow> dialog" where
  "dialog_of i =
     \<lparr>d_id = i, d_is_group = True, d_slowmode_seconds = Absent, d_participants_count = Value 120\<rparr>"

section \<open>Properties of the store\<close>

lemma find_one_update_one:
  "find_one uid (update_one uid f e ds) =
     Some (case find_one uid ds of
             None \<Rightarrow> \<lparr>user_id = uid, body = f e\<rparr>
           | Some d \<Rightarrow> d\<lparr>body := f (body d)\<rparr>)"
  by (induction ds) (simp_all add: find_one_def)

lemma find_one_update_one_other:
  "uid' \<noteq> uid \<Longrightarrow> find_one uid' (update_one uid f e ds) = find_one uid' ds"
  by (induction ds) (simp_all add: find_one_def)

lemma saved_count_positive: "1 \<le> get_user_saved_messages_count db uid"
  by (simp add: get_user_saved_messages_count_def Let_def split: option.splits)

subsection \<open>The rotation pointer\<close>

lemma update_ad_cycle_eq:
  "update_ad_cycle db uid =
     (db\<lparr>users := update_one uid
         (\<lambda>b. b\<lparr>ad_cycle_index :=
            Some ((get_current_ad_cycle db uid + 1) mod get_user_saved_messages_count db uid)\<rparr>)
         empty_user (users db)\<rparr>,
      (get_current_ad_cycle db uid + 1) mod get_user_saved_messages_count db uid)"
  using saved_count_positive [of db uid]
  by (simp add: update_ad_cycle_def Let_def py_mod_def)

lemma pointer_after_set:
  "get_current_ad_cycle
     (db\<lparr>users := update_one uid (\<lambda>b. b\<lparr>ad_cycle_index := Some i\<rparr>) empty_user (users db)\<rparr>) uid = i"
  by (simp add: get_current_ad_cycle_def find_one_update_one split: option.splits)

lemma count_after_set:
  "get_user_saved_messages_count
     (db\<lparr>users := update_one uid (\<lambda>b. b\<lparr>ad_cycle_index := i\<rparr>) empty_user (users db)\<rparr>) uid
   = get_user_saved_messages_count db uid"
  by (simp add: get_user_saved_messages_count_def find_one_update_one empty_user_def
      split: option.splits)

lemma count_analytics:
  "get_user_saved_messages_count (db\<lparr>analytics := a\<rparr>) uid = get_user_saved_messages_count db uid"
  by (simp add: get_user_saved_messages_count_def)

lemma pointer_analytics:
  "get_current_ad_cycle (db\<lparr>analytics := a\<rparr>) uid = get_current_ad_cycle db uid"
  by (simp add: get_current_ad_cycle_def)

lemma pointer_update_ad_cycle:
  "get_current_ad_cycle (fst (update_ad_cycle db uid)) uid =
     (get_current_ad_cycle db uid + 1) mod get_user_saved_messages_count db uid"
  by (simp add: update_ad_cycle_eq pointer_after_set)

lemma count_update_ad_cycle:
  "get_user_saved_messages_count (fst (update_ad_cycle db uid)) uid =
     get_user_saved_messages_count db uid"
  by (simp add: update_ad_cycle_eq count_after_set)

lemma pointer_increment_broadcast_cycle:
  "get_current_ad_cycle (increment_broadcast_cycle db uid) uid =
     (get_current_ad_cycle db uid + 1) mod get_user_saved_messages_count db uid"
  by (simp add: increment_broadcast_cycle_def pointer_update_ad_cycle count_analytics
      pointer_analytics)

lemma count_increment_broadcast_cycle:
  "get_user_saved_messages_count (increment_broadcast_cycle db uid) uid =
     get_user_saved_messages_count db uid"
  by (simp add: increment_broadcast_cycle_def count_update_ad_cycle count_analytics)

lemma count_advance:
  "get_user_saved_messages_count (advance n db uid) uid = get_user_saved_messages_count db uid"
  by (induction n) (simp_all add: count_update_ad_cycle)

lemma count_cycles:
  "get_user_saved_messages_count (cycles n db uid) uid = get_user_saved_messages_count db uid"
  by (induction n) (simp_all add: count_increment_broadcast_cycle)

text \<open>
  Claim C8. For a user whose rotation pointer starts at 0, the stored pointer after \<open>n\<close>
  applications of the cycle-advance operation equals \<open>n mod message_count\<close>, where
  \<open>message_count\<close> is the user's saved-message count as the store reports it (3 by
  default). This holds for \<^verbatim>\<open>update_ad_cycle\<close> applied \<open>n\<close> times and for
  \<^verbatim>\<open>increment_broadcast_cycle\<close>, the call the engine makes after each cycle; neither
  changes the count.
\<close>

theorem rotation_pointer_after_cycles:
  assumes "get_current_ad_cycle db uid = 0"
  shows "get_current_ad_cycle (advance n db uid) uid
           = int n mod get_user_saved_messages_count db uid
       \<and> get_current_ad_cycle (cycles n db uid) uid
           = int n mod get_user_saved_messages_count db uid"
proof (induction n)
  case 0
  show ?case using assms by simp
next
  case (Suc n)
  have step: "(int n mod k + 1) mod k = (1 + int n) mod k" for k :: int
    using mod_add_left_eq [of "int n" k 1] by (simp add: add.commute)
  from Suc show ?case
    by (simp add: pointer_update_ad_cycle pointer_increment_broadcast_cycle count_cycles
        count_advance step)
qed

theorem rotation_pointer_after_cycles_witness:
  "get_current_ad_cycle db_four_messages 7 = 0
   \<and> get_user_saved_messages_count db_four_messages 7 = 4
   \<and> get_current_ad_cycle (advance 6 db_four_messages 7) 7 = 2
   \<and> get_current_ad_cycle (cycles 6 db_four_messages 7) 7 = 2"
proof -
  have start: "get_current_ad_cycle db_four_messages 7 = 0"
    by (simp add: db_four_messages_def empty_db_def empty_user_def get_current_ad_cycle_def
        find_one_def)
  have four: "get_user_saved_messages_count db_four_messages 7 = 4"
    by (simp add: db_four_messages_def empty_db_def empty_user_def
        get_user_saved_messages_count_def find_one_def)
  show ?thesis
    using start four rotation_pointer_after_cycles [OF start, of 6] by simp
qed

text \<open>
  Claim C10. For every store and every user, \<^verbatim>\<open>get_user_saved_messages_count\<close>
  returns an integer that is at least 1, whatever is stored (nothing, zero, a negative
  number); so the modulus in \<^verbatim>\<open>update_ad_cycle\<close> is never zero: the remainder is
  defined and is the value the call returns.
\<close>

theorem saved_messages_count_at_least_one:
  "1 \<le> get_user_saved_messages_count db uid
   \<and> py_mod (get_current_ad_cycle db uid + 1) (get_user_saved_messages_count db uid)
       = Some ((get_current_ad_cycle db uid + 1) mod get_user_saved_messages_count db uid)
   \<and> snd (update_ad_cycle db uid)
       = (get_current_ad_cycle db uid + 1) mod get_user_saved_messages_count db uid"
  using saved_count_positive [of db uid]
  by (simp add: py_mod_def update_ad_cycle_eq)

text \<open>The three kinds of stored value the claim names, each read back as 3.\<close>

lemma saved_messages_count_defaults:
  "get_user_saved_messages_count empty_db 7 = 3
   \<and> get_user_saved_messages_count (fst (set_user_saved_messages_count empty_db 7 0)) 7 = 3
   \<and> get_user_saved_messages_count (fst (set_user_saved_messages_count empty_db 7 (- 2))) 7 = 3
   \<and> get_user_saved_messages_count (fst (set_user_saved_messages_count empty_db 7 5)) 7 = 5
   \<and> set_user_saved_messages_count empty_db 7 (2 ^ 63) = (empty_db, False)"
  by (simp add: get_user_saved_messages_count_def set_user_saved_messages_count_def
      int64_def empty_db_def empty_user_def find_one_def)

subsection \<open>Full wipe\<close>

lemma find_many_delete_many: "find_many uid (delete_many uid ds) = []"
  by (induction ds) (simp_all add: find_many_def delete_many_def)

lemma delete_user_fully_eq:
  "fst (delete_user_fully db uid) =
     db\<lparr>users := delete_many uid (users db),
        accounts := delete_many uid (accounts db),
        ad_pointers := delete_many uid (ad_pointers db),
        ad_delays := delete_many uid (ad_delays db),
        group_msg_delays := delete_many uid (group_msg_delays db),
        cycle_timeouts := delete_many uid (cycle_timeouts db),
        broadcast_states := delete_many uid (broadcast_states db),
        broadcast_logs := delete_many uid (broadcast_logs db),
        broadcast_activity := delete_many uid (broadcast_activity db),
        target_groups := delete_many uid (target_groups db),
        logger_status := delete_many uid (logger_status db),
        logger_failures := delete_many uid (logger_failures db),
        temp_data := delete_many uid (temp_data db),
        groups_cache := delete_many uid (groups_cache db)\<rparr>"
  by (simp add: delete_user_fully_def wiped_collections_def delete_from_def)

text \<open>
  What the wipe does: the fourteen listed collections hold no document of the user
  afterwards; the analytics and the forum groups are the two collections it leaves as
  they were.
\<close>

lemma delete_user_fully_effect:
  "find_many uid (users (fst (delete_user_fully db uid))) = []
   \<and> find_many uid (accounts (fst (delete_user_fully db uid))) = []
   \<and> find_many uid (ad_pointers (fst (delete_user_fully db uid))) = []
   \<and> find_many uid (ad_delays (fst (delete_user_fully db uid))) = []
   \<and> find_many uid (group_msg_delays (fst (delete_user_fully db uid))) = []
   \<and> find_many uid (cycle_timeouts (fst (delete_user_fully db uid))) = []
   \<and> find_many uid (broadcast_states (fst (delete_user_fully db uid))) = []
   \<and> find_many uid (broadcast_logs (fst (delete_user_fully db uid))) = []
   \<and> find_many uid (broadcast_activity (fst (delete_user_fully db uid))) = []
   \<and> find_many uid (target_groups (fst (delete_user_fully db uid))) = []
   \<and> find_many uid (logger_status (fst (delete_user_fully db uid))) = []
   \<and> find_many uid (logger_failures (fst (delete_user_fully db uid))) = []
   \<and> find_many uid (temp_data (fst (delete_user_fully db uid))) = []
   \<and> find_many uid (groups_cache (fst (delete_user_fully db uid))) = []
   \<and> analytics (fst (delete_user_fully db uid)) = analytics db
   \<and> forum_groups (fst (delete_user_fully db uid)) = forum_groups db"
  by (simp add: delete_user_fully_eq find_many_delete_many)

text \<open>
  Claim C3 says that after \<^verbatim>\<open>delete_user_fully\<close> no document of the user remains in
  any per-user collection but the analytics, forum groups included. The code's list of
  collections has no \<^verbatim>\<open>forum_groups\<close> entry: for a user with one selected forum and
  one selected group, the call returns \<^verbatim>\<open>True\<close>, the target group is gone, and
  \<^verbatim>\<open>get_forum_groups\<close> still returns the forum.
\<close>

theorem delete_user_fully_keeps_forum_groups:
  "snd (delete_user_fully db_with_forum 7) = True
   \<and> get_target_groups (fst (delete_user_fully db_with_forum 7)) 7 = []
   \<and> get_forum_groups (fst (delete_user_fully db_with_forum 7)) 7
       = [\<lparr>user_id = 7, body = \<lparr>group_id = 1001, group_name = ''Forum''\<rparr>\<rparr>]"
proof -
  have returned: "snd (delete_user_fully db_with_forum 7) = True"
    by (simp add: delete_user_fully_def)
  have targets: "get_target_groups (fst (delete_user_fully db_with_forum 7)) 7 = []"
    by (simp add: delete_user_fully_eq get_target_groups_def find_many_delete_many)
  have forums: "get_forum_groups (fst (delete_user_fully db_with_forum 7)) 7
       = [\<lparr>user_id = 7, body = \<lparr>group_id = 1001, group_name = ''Forum''\<rparr>\<rparr>]"
    by (simp add: delete_user_fully_eq get_forum_groups_def find_many_def db_with_forum_def
        empty_db_def)
  from returned targets forums show ?thesis by simp
qed

section \<open>Properties of the start and stop requests\<close>

lemma running_after_set:
  "state_running (get_broadcast_state (set_broadcast_state d u r p) u) = r"
  by (simp add: state_running_def get_broadcast_state_def set_broadcast_state_def
      find_one_update_one split: option.splits)

lemma stop_broadcast_task_not_running:
  "\<not> state_running (get_broadcast_state (bdb (fst (stop_broadcast_task task_exit b u))) u)"
  by (simp add: stop_broadcast_task_def Let_def running_after_set)

lemma task_runs_without_live_task:
  "user_tasks b u \<noteq> Some False \<Longrightarrow> task_runs progress b u = b"
  by (simp add: task_runs_def split: option.splits)

text \<open>
  When the stored state is running, \<^verbatim>\<open>stop_broadcast_task\<close> drops the user's task
  from \<^verbatim>\<open>user_tasks\<close>; nothing is left to run while the button's handler awaits.
\<close>

lemma stop_broadcast_callback_stops:
  assumes "state_running (get_broadcast_state (bdb b) u)"
  shows "snd (stop_broadcast_callback task_exit progress b u)
         \<and> user_tasks (fst (stop_broadcast_callback task_exit progress b u)) u = None
         \<and> \<not> state_running
               (get_broadcast_state
                  (bdb (fst (stop_broadcast_callback task_exit progress b u))) u)"
  using assms
  by (simp add: stop_broadcast_callback_def stop_broadcast_task_def task_runs_def Let_def
      running_after_set)

text \<open>
  A stop request made when \<^verbatim>\<open>user_tasks\<close> holds no unfinished task for the user
  leaves the stored state not running, by the command and by the button.
\<close>

lemma stop_request_without_live_task:
  assumes "user_tasks b u \<noteq> Some False"
  shows "\<not> state_running
             (get_broadcast_state (bdb (fst (stop_command task_exit progress b u))) u)
         \<and> \<not> state_running
               (get_broadcast_state
                  (bdb (fst (stop_broadcast_callback task_exit progress b u))) u)"
proof -
  have tasks: "user_tasks (fst (stop_broadcast_task task_exit b' u)) u \<noteq> Some False"
    if "user_tasks b' u \<noteq> Some False" for b'
    using that by (simp add: stop_broadcast_task_def Let_def)
  have "task_runs progress (fst (stop_broadcast_task task_exit b' u)) u
          = fst (stop_broadcast_task task_exit b' u)"
    if "user_tasks b' u \<noteq> Some False" for b'
    using tasks [OF that] by (rule task_runs_without_live_task)
  with assms show ?thesis
    by (simp add: stop_command_def stop_broadcast_callback_def Let_def
        stop_broadcast_task_not_running)
qed

text \<open>
  The button, run: a running broadcast with a task (the task is dropped), and a user
  with no state and no task.
\<close>

lemma stop_request_examples:
  "state_running (get_broadcast_state (bdb bot_running) 7)
   \<and> snd (stop_broadcast_callback task_exit progress bot_running 7)
   \<and> user_tasks (fst (stop_broadcast_callback task_exit progress bot_running 7)) 7 = None
   \<and> \<not> state_running
         (get_broadcast_state
            (bdb (fst (stop_broadcast_callback task_exit progress bot_running 7))) 7)
   \<and> \<not> snd (stop_broadcast_callback task_exit progress
              \<lparr>bdb = empty_db, user_tasks = Map.empty\<rparr> 7)
   \<and> \<not> state_running
         (get_broadcast_state
            (bdb (fst (stop_broadcast_callback task_exit progress
                         \<lparr>bdb = empty_db, user_tasks = Map.empty\<rparr> 7)))
            7)"
  by (simp add: stop_broadcast_callback_def stop_broadcast_task_def task_runs_def
      bot_running_def running_after_set Let_def)
    (simp add: get_broadcast_state_def state_running_def empty_db_def find_one_def)

text \<open>
  The \<^verbatim>\<open>/stop\<close> command writes the stopped state before it calls
  \<^verbatim>\<open>stop_broadcast_task\<close>, which therefore finds nothing running: the command always
  reports that no broadcast was running, no task is cancelled, and a task held in
  \<^verbatim>\<open>user_tasks\<close> goes on running.
\<close>

lemma stop_command_never_cancels:
  "stop_command task_exit progress b u
     = (task_runs progress (b\<lparr>bdb := set_broadcast_state (bdb b) u False False\<rparr>) u, False)"
  by (simp add: stop_command_def stop_broadcast_task_def running_after_set)


subsection \<open>The logger gate\<close>

lemma logger_status_truthy: "dict_truthy (get_logger_status d u)"
  by (simp add: dict_truthy_def get_logger_status_def Let_def split: option.splits)

text \<open>
  No start request is ever refused for the logger: the button's gate tests the truth value
  of a dictionary that always has two entries, and \<^verbatim>\<open>/go\<close> has no such gate.
\<close>

lemma logger_gate_never_refuses:
  "snd (start_broadcast_callback task_exit saved_available b u) \<noteq> LoggerNotStarted
   \<and> snd (go_command b u) \<noteq> LoggerNotStarted"
  by (simp add: start_broadcast_callback_def go_command_def Let_def logger_status_truthy)

text \<open>
  Claim C4 says that a start request is refused, and no task created, for a user whose
  stored logger status has \<^verbatim>\<open>is_started = false\<close>. For a user with one account, no
  running broadcast and exactly that logger status, both entry points create a task: the
  button replies that the broadcast started and so does \<^verbatim>\<open>/go\<close>.
\<close>

theorem start_request_ignores_logger_status:
  "get_logger_status (bdb bot_without_logger) 7 = [(''is_started'', False), (''is_active'', False)]
   \<and> snd (start_broadcast_callback task_exit None bot_without_logger 7) = Started
   \<and> user_tasks (fst (start_broadcast_callback task_exit None bot_without_logger 7)) 7 = Some False
   \<and> snd (go_command bot_without_logger 7) = Started
   \<and> user_tasks (fst (go_command bot_without_logger 7)) 7 = Some False"
  by (simp add: bot_without_logger_def empty_db_def get_logger_status_def find_one_def
      start_broadcast_callback_def go_command_def Let_def get_user_post_link_def use_post_link_def
      get_broadcast_state_def state_running_def get_user_accounts_def find_many_def dict_truthy_def)

section \<open>Properties of the schedule window\<close>

lemma strptime_8am: "strptime_time ''8:00 AM'' = Some (clock 8 0 0 0)"
  by (simp add: strptime_time_def parse_hour_def parse_minute_def digit_of_def is_space_def
      lower_def lower_char_def clock_def)

lemma strptime_8pm: "strptime_time ''8:00 PM'' = Some (clock 20 0 0 0)"
  by (simp add: strptime_time_def parse_hour_def parse_minute_def digit_of_def is_space_def
      lower_def lower_char_def clock_def)

lemma time_of_day_on_day:
  "0 \<le> t \<Longrightarrow> t < day_us \<Longrightarrow> time_of_day (n * day_us + t) = t"
  by (simp add: time_of_day_def)

text \<open>
  With the window from 8:00 AM to 8:00 PM the check is the closed interval between the
  two parsed times, on the time of day down to the microsecond.
\<close>

lemma within_window_iff:
  assumes "schedule_enabled u = Some True"
    and "schedule_start_time u = Some ''8:00 AM''"
    and "schedule_end_time u = Some ''8:00 PM''"
  shows "fst (is_within_schedule (Some u) now)
         = (clock 8 0 0 0 \<le> time_of_day now \<and> time_of_day now \<le> clock 20 0 0 0)"
proof -
  have order: "clock 8 0 0 0 \<le> clock 20 0 0 0"
    by (simp add: clock_def)
  show ?thesis
    using assms order
    by (simp add: is_within_schedule_def flag_def start_time_str_def end_time_str_def
        strptime_8am strptime_8pm Let_def)
qed




text \<open>
  The comparison is on the full time of day, so the end boundary is the instant
  8:00:00 PM itself: one microsecond later, and for the rest of that minute, the check
  reports outside the schedule; before 8:00:00 AM it does so up to the last microsecond.
\<close>

lemma schedule_window_end_minute:
  assumes "schedule_enabled u = Some True"
    and "schedule_start_time u = Some ''8:00 AM''"
    and "schedule_end_time u = Some ''8:00 PM''"
  shows "fst (is_within_schedule (Some u) (n * day_us + clock 20 0 0 1)) = False
       \<and> fst (is_within_schedule (Some u) (n * day_us + clock 20 0 30 0)) = False
       \<and> fst (is_within_schedule (Some u) (n * day_us + clock 7 59 59 999999)) = False
       \<and> fst (is_within_schedule (Some u) (n * day_us + clock 8 0 59 999999)) = True"
proof -
  have t1: "time_of_day (n * day_us + clock 20 0 0 1) = clock 20 0 0 1"
    by (rule time_of_day_on_day) (simp_all add: clock_def day_us_def)
  have t2: "time_of_day (n * day_us + clock 20 0 30 0) = clock 20 0 30 0"
    by (rule time_of_day_on_day) (simp_all add: clock_def day_us_def)
  have t3: "time_of_day (n * day_us + clock 7 59 59 999999) = clock 7 59 59 999999"
    by (rule time_of_day_on_day) (simp_all add: clock_def day_us_def)
  have t4: "time_of_day (n * day_us + clock 8 0 59 999999) = clock 8 0 59 999999"
    by (rule time_of_day_on_day) (simp_all add: clock_def day_us_def)
  note iff = within_window_iff [OF assms]
  show ?thesis
    by (simp add: iff t1 t2 t3 t4) (simp add: clock_def)
qed

section \<open>Properties of the cycle engine\<close>

subsection \<open>What a visit leaves alone\<close>

lemma send_topics_frame:
  "working_groups_map (send_topics c tf acc g src ts s) = working_groups_map s
   \<and> failed_count (send_topics c tf acc g src ts s) = failed_count s
   \<and> cycle_count (send_topics c tf acc g src ts s) = cycle_count s
   \<and> current_cycle (send_topics c tf acc g src ts s) = current_cycle s
   \<and> users (edb (send_topics c tf acc g src ts s)) = users (edb s)
   \<and> broadcast_states (edb (send_topics c tf acc g src ts s)) = broadcast_states (edb s)"
  by (induction ts arbitrary: s)
    (simp_all add: increment_broadcast_stats_def split: forward_result.splits)

lemma visit_group_frame:
  "cycle_count (visit_group c env acc g s) = cycle_count s
   \<and> current_cycle (visit_group c env acc g s) = current_cycle s
   \<and> users (edb (visit_group c env acc g s)) = users (edb s)
   \<and> broadcast_states (edb (visit_group c env acc g s)) = broadcast_states (edb s)"
  by (simp add: visit_group_def Let_def send_topics_frame increment_broadcast_stats_def
      split: option.splits forward_result.splits exn.splits)


lemma working_groups_remove_group:
  "working_groups (s\<lparr>working_groups_map := remove_group acc g (working_groups_map s)\<rparr>) a =
     (if a = acc then remove1 g (working_groups s a) else working_groups s a)"
  by (simp add: working_groups_def remove_group_def split: option.splits)


subsection \<open>The working sets never grow\<close>




lemma working_groups_cong:
  "working_groups_map s' = working_groups_map s \<Longrightarrow> working_groups s' a = working_groups s a"
  by (simp add: working_groups_def)





subsection \<open>Which visits keep a group and which drop it\<close>



lemma run_groups_frame:
  "cycle_count (state_of (run_groups c w acc gs s)) = cycle_count s
   \<and> current_cycle (state_of (run_groups c w acc gs s)) = current_cycle s
   \<and> users (edb (state_of (run_groups c w acc gs s))) = users (edb s)
   \<and> broadcast_states (edb (state_of (run_groups c w acc gs s))) = broadcast_states (edb s)"
proof (induction gs arbitrary: s)
  case Nil
  show ?case by (simp add: state_of_def)
next
  case (Cons h gs)
  show ?case
    using Cons.IH [of "visit_group c (w (cycle_count s) acc h) acc h s"]
    by (simp add: visit_group_frame) (simp add: state_of_def)
qed


lemma run_accounts_frame:
  "cycle_count (state_of (run_accounts c w clients accs s)) = cycle_count s
   \<and> current_cycle (state_of (run_accounts c w clients accs s)) = current_cycle s
   \<and> users (edb (state_of (run_accounts c w clients accs s))) = users (edb s)
   \<and> broadcast_states (edb (state_of (run_accounts c w clients accs s))) = broadcast_states (edb s)"
proof (induction accs arbitrary: s)
  case Nil
  show ?case by (simp add: state_of_def)
next
  case (Cons x accs)
  let ?r = "run_groups c w (account_id (body x)) (working_groups s (account_id (body x))) s"
  note first = run_groups_frame [where c = c and w = w and acc = "account_id (body x)"
      and gs = "working_groups s (account_id (body x))" and s = s]
  show ?case
  proof (cases "account_id (body x) \<in> set clients")
    case False
    then show ?thesis using Cons.IH [of s] by simp
  next
    case True
    show ?thesis
    proof (cases ?r)
      case (Inl e)
      with True first show ?thesis by simp
    next
      case (Inr s1)
      with True first Cons.IH [of s1] show ?thesis by (simp add: state_of_def)
    qed
  qed
qed









subsection \<open>The scenario, evaluated\<close>



lemma scenario_running:
  "state_running (get_broadcast_state scenario_db 7)"
  by (simp add: scenario_db_def running_after_set)


subsection \<open>Rate limits\<close>

lemma visit_group_flood_wait:
  assumes "reaches_forward c env g s"
    and "forward env = Failed (FloodWait v x)"
  shows "\<exists>src. visit_group c env acc g s =
           s\<lparr>failed_count := failed_count s + 1,
             trace := trace s @ [Forward acc (gid g) None src, Sleep (wait_time v x + 2)]\<rparr>"
  using assms
  by (auto simp add: visit_group_def reaches_forward_def split: option.splits)

text \<open>
  The \<^verbatim>\<open>FloodWait\<close> handler. When the forward to a regular target raises
  \<^verbatim>\<open>FloodWait\<close> with a wait of \<open>W\<close> seconds (\<open>W > 0\<close>, carried by \<^verbatim>\<open>value\<close>, or by
  \<^verbatim>\<open>x\<close> when \<^verbatim>\<open>value\<close> is absent), the attempt is counted as failed, the next action
  is a sleep of \<open>W + 2\<close> seconds, and the working sets are untouched.
\<close>

lemma flood_wait_handler:
  assumes "reaches_forward c env g s"
    and "forward env = Failed (FloodWait v x)"
    and "0 < W"
    and "v = W \<or> (v = 0 \<and> x = W)"
  shows "failed_count (visit_group c env acc g s) = failed_count s + 1
       \<and> sent_count (visit_group c env acc g s) = sent_count s
       \<and> (\<exists>src. trace (visit_group c env acc g s)
                   = trace s @ [Forward acc (gid g) None src, Sleep (W + 2)])
       \<and> working_groups_map (visit_group c env acc g s) = working_groups_map s"
proof -
  from assms(1) assms(2) obtain src where visit:
    "visit_group c env acc g s =
       s\<lparr>failed_count := failed_count s + 1,
         trace := trace s @ [Forward acc (gid g) None src, Sleep (wait_time v x + 2)]\<rparr>"
    using visit_group_flood_wait by blast
  have wait: "wait_time v x = W"
    using assms(3) assms(4) by (auto simp add: wait_time_def)
  show ?thesis by (simp add: visit wait)
qed

text \<open>
  The handler next to it: a forward that raises an \<^verbatim>\<open>RPCError\<close>, whatever it reports,
  is counted as failed and followed by no sleep at all, not even the per-group delay.
\<close>

lemma visit_group_rpc_error:
  assumes "reaches_forward c env g s"
    and "forward env = Failed (RPCError m)"
  shows "\<exists>src. visit_group c env acc g s =
           s\<lparr>failed_count := failed_count s + 1,
             trace := trace s @ [Forward acc (gid g) None src]\<rparr>"
  using assms
  by (auto simp add: visit_group_def reaches_forward_def split: option.splits)

subsection \<open>The analytics counters\<close>

lemma total_failed_after_success:
  "total_failed_of (increment_broadcast_stats d uid True) u = total_failed_of d u"
proof (cases "u = uid")
  case True
  then show ?thesis
    by (simp add: total_failed_of_def get_user_analytics_def increment_broadcast_stats_def
        find_one_update_one counter_def empty_analytics_def split: option.splits)
next
  case False
  then show ?thesis
    by (simp add: total_failed_of_def get_user_analytics_def increment_broadcast_stats_def
        find_one_update_one_other)
qed

lemma total_sent_after_success:
  "total_sent_of (increment_broadcast_stats d uid True) uid = total_sent_of d uid + 1"
  by (simp add: total_sent_of_def get_user_analytics_def increment_broadcast_stats_def
      find_one_update_one counter_def empty_analytics_def inc_field_def split: option.splits)

lemma total_failed_after_failure:
  "total_failed_of (increment_broadcast_stats d uid False) uid = total_failed_of d uid + 1"
  by (simp add: total_failed_of_def get_user_analytics_def increment_broadcast_stats_def
      find_one_update_one counter_def empty_analytics_def inc_field_def split: option.splits)

lemma send_topics_total_failed:
  "total_failed_of (edb (send_topics c tf acc g src ts s)) u = total_failed_of (edb s) u"
  by (induction ts arbitrary: s)
    (simp_all add: total_failed_after_success split: forward_result.splits)

text \<open>
  No visit changes \<^verbatim>\<open>total_failed\<close>, whatever the world answers: every failure
  branch of the loop body counts in the local \<^verbatim>\<open>failed_count\<close> only.
\<close>

lemma visit_group_total_failed:
  "total_failed_of (edb (visit_group c env acc g s)) u = total_failed_of (edb s) u"
  by (simp add: visit_group_def Let_def send_topics_total_failed total_failed_after_success
      split: option.splits forward_result.splits exn.splits)

text \<open>A forward to a regular target that returns adds one to \<^verbatim>\<open>total_sent\<close>.\<close>

lemma visit_group_total_sent:
  assumes "reaches_forward c env g s" and "forward env = Sent"
  shows "total_sent_of (edb (visit_group c env acc g s)) (cfg_uid c)
         = total_sent_of (edb s) (cfg_uid c) + 1"
  using assms
  by (auto simp add: visit_group_def reaches_forward_def total_sent_after_success
      split: option.splits)

lemma run_groups_total_failed:
  "total_failed_of (edb (state_of (run_groups c w acc gs s))) u = total_failed_of (edb s) u"
proof (induction gs arbitrary: s)
  case Nil
  show ?case by (simp add: state_of_def)
next
  case (Cons h gs)
  show ?case
    using Cons.IH [of "visit_group c (w (cycle_count s) acc h) acc h s"]
    by (simp add: visit_group_total_failed) (simp add: state_of_def)
qed

lemma run_accounts_total_failed:
  "total_failed_of (edb (state_of (run_accounts c w clients accs s))) u = total_failed_of (edb s) u"
proof (induction accs arbitrary: s)
  case Nil
  show ?case by (simp add: state_of_def)
next
  case (Cons x accs)
  let ?r = "run_groups c w (account_id (body x)) (working_groups s (account_id (body x))) s"
  note first = run_groups_total_failed [where c = c and w = w and acc = "account_id (body x)"
      and gs = "working_groups s (account_id (body x))" and s = s and u = u]
  show ?case
  proof (cases "account_id (body x) \<in> set clients")
    case False
    then show ?thesis using Cons.IH [of s] by simp
  next
    case True
    show ?thesis
    proof (cases ?r)
      case (Inl e)
      with True first show ?thesis by simp
    next
      case (Inr s1)
      with True first Cons.IH [of s1] show ?thesis by (simp add: state_of_def)
    qed
  qed
qed

lemma total_failed_other_collections:
  "analytics d' = analytics d \<Longrightarrow> total_failed_of d' u = total_failed_of d u"
  by (simp add: total_failed_of_def get_user_analytics_def)

lemma total_failed_after_cycle_count:
  "total_failed_of (increment_broadcast_cycle d uid) u = total_failed_of d u"
proof -
  let ?d1 = "d\<lparr>analytics := update_one uid (\<lambda>b. b\<lparr>total_cycles := inc_field (total_cycles b)\<rparr>)
                           empty_analytics (analytics d)\<rparr>"
  have counted: "total_failed_of ?d1 u = total_failed_of d u"
  proof (cases "u = uid")
    case True
    then show ?thesis
      by (simp add: total_failed_of_def get_user_analytics_def find_one_update_one counter_def
          empty_analytics_def split: option.splits)
  next
    case False
    then show ?thesis
      by (simp add: total_failed_of_def get_user_analytics_def find_one_update_one_other)
  qed
  have "analytics (fst (update_ad_cycle ?d1 uid)) = analytics ?d1"
    by (simp add: update_ad_cycle_eq)
  then have "total_failed_of (fst (update_ad_cycle ?d1 uid)) u = total_failed_of ?d1 u"
    by (rule total_failed_other_collections)
  with counted show ?thesis by (simp add: increment_broadcast_cycle_def)
qed

text \<open>
  Hence no iteration of the loop changes \<^verbatim>\<open>total_failed\<close>: within
  \<^verbatim>\<open>run_broadcast\<close> the only call \<^verbatim>\<open>increment_broadcast_stats(uid, False)\<close> is in
  the handler for an exception that ends the whole task.
\<close>

lemma loop_iteration_total_failed:
  "total_failed_of (edb (step_state (loop_iteration c w clients accs deadline now s))) u
     = total_failed_of (edb s) u"
proof -
  let ?s1 = "s\<lparr>cycle_count := cycle_count s + 1\<rparr>"
  have pass: "total_failed_of (edb (state_of (run_accounts c w clients accs ?s1))) u
                = total_failed_of (edb s) u"
    using run_accounts_total_failed [where c = c and w = w and clients = clients and accs = accs
        and s = ?s1 and u = u]
    by simp
  have stop: "total_failed_of (set_broadcast_state (edb s) (cfg_uid c) False False) u
                = total_failed_of (edb s) u"
    by (rule total_failed_other_collections) (simp add: set_broadcast_state_def)
  show ?thesis
  proof (cases "run_accounts c w clients accs ?s1")
    case (Inl e)
    with pass stop show ?thesis
      by (cases e) (simp add: loop_iteration_def step_state_def state_of_def)
  next
    case (Inr s2)
    with pass stop show ?thesis
      by (simp add: loop_iteration_def step_state_def state_of_def finish_cycle_def Let_def
          total_failed_after_cycle_count)
  qed
qed

lemmas scenario_defs =
  scenario_engine_def scenario_db_def scenario_account_def example_config_def world_with_def
  env_with_def denied_group_def open_group_def one_message_def empty_db_def empty_user_def
  empty_state_def empty_analytics_def

lemmas engine_defs =
  loop_iteration_def visit_group_def prepare_message_def get_user_post_link_def
  use_post_link_def get_user_saved_messages_count_def py_mod_def
  get_broadcast_state_def set_broadcast_state_def state_running_def find_one_def
  is_within_schedule_def get_user_def flag_def working_groups_def
  increment_broadcast_stats_def inc_field_def finish_cycle_def increment_broadcast_cycle_def
  update_ad_cycle_def get_current_ad_cycle_def wait_time_def remove_group_def
  is_permanent_def lower_def lower_char_def
  get_user_analytics_def counter_def total_sent_of_def total_failed_of_def

text \<open>
  Claim C1 says that every failed send adds one to \<^verbatim>\<open>total_failed\<close>, and that a first
  cycle with one successful and one failed send raises \<^verbatim>\<open>total_sent\<close> and
  \<^verbatim>\<open>total_failed\<close> by one each. In the scenario (the forward to the second group is
  refused with a permission error, the forward to the first succeeds) the first iteration
  runs cycle 1, the local counters are 1 sent and 1 failed, the summary of cycle 1 is
  logged, \<^verbatim>\<open>total_sent\<close> goes from 0 to 1, and \<^verbatim>\<open>total_failed\<close> stays 0.
\<close>

theorem first_cycle_leaves_total_failed:
  "total_sent_of (edb scenario_engine) 7 = 0
   \<and> total_failed_of (edb scenario_engine) 7 = 0
   \<and> (case loop_iteration example_config
            (world_with (Failed (RPCError ''CHAT_WRITE_FORBIDDEN''))) [1]
            [scenario_account] None (0, 0) scenario_engine of
        Continue s' \<Rightarrow>
          sent_count s' = 1 \<and> failed_count s' = 1
          \<and> total_sent_of (edb s') 7 = 1
          \<and> total_failed_of (edb s') 7 = 0
          \<and> trace s' = [Forward 1 (Some 102) None (FromSaved one_message),
                         Forward 1 (Some 101) None (FromSaved one_message), Sleep 5,
                         CycleCompleted 1 1 1 1, Sleep 60]
      | Break s' \<Rightarrow> False
      | Interrupted s' \<Rightarrow> False)"
  by (simp add: scenario_defs engine_defs Let_def)

subsection \<open>A rate limit raised by the sending client\<close>

text \<open>
  Claim C5. A rate-limited send is to be counted as failed, the engine is to sleep at
  least the signalled wait before its next action, and the group is to stay in the
  working set. The code is run on a cycle in which the sending client answers the
  forward to group 102, and the forward into the topic of forum 103, with its rate
  limit for a wait of 300 seconds. The exception is caught as \<^verbatim>\<open>RPCError\<close>, not as
  \<^verbatim>\<open>FloodWait\<close>: the attempt on group 102 is counted as failed and the group stays in
  the working set, but the next action is the forward to group 101, with no sleep in
  between. The rate-limited forward into the topic is not counted as failed (the cycle
  ends with 1 sent and 1 failed) and is followed by sleeps of 2 and 5 seconds.
\<close>

theorem rate_limit_of_sender_is_not_waited_for:
  "(case loop_iteration example_config limited_world [1] [scenario_account] None (0, 0)
           limited_engine of
      Continue s' \<Rightarrow>
        sent_count s' = 1 \<and> failed_count s' = 1
        \<and> working_groups s' 1 = [denied_group, open_group, forum_group]
        \<and> trace s' = [Forward 1 (Some 102) None (FromSaved one_message),
                       Forward 1 (Some 101) None (FromSaved one_message), Sleep 5,
                       Forward 1 (Some 103) (Some 11) (FromSaved one_message), Sleep 2, Sleep 5,
                       CycleCompleted 1 1 1 1, Sleep 60]
    | Break s' \<Rightarrow> False
    | Interrupted s' \<Rightarrow> False)"
  by (simp add: limited_world_def limited_engine_def flood_wait_error_300_def forum_group_def
      scenario_defs engine_defs Let_def)

subsection \<open>Permanent and transient failures\<close>








section \<open>Properties of the pre-broadcast analysis\<close>

text \<open>The three restrictions the analyzer reports for a group it could not clear.\<close>

lemma check_group_restrictions:
  "check_group mode g ChatWriteForbiddenError
     = Restricted \<lparr>r_id = group_id (body g), r_title = doc_title g, r_reason = ''Write forbidden''\<rparr>
   \<and> check_group mode g ValueError
     = Restricted \<lparr>r_id = group_id (body g), r_title = doc_title g, r_reason = ''Not a member''\<rparr>
   \<and> check_group ''both'' g (Found (e\<lparr>e_send_banned := True\<rparr>))
     = Restricted \<lparr>r_id = group_id (body g),
                   r_title = (case e_title e of Some t \<Rightarrow> t | None \<Rightarrow> doc_title g),
                   r_reason = ''No send permission''\<rparr>"
  by (simp add: check_group_def Let_def)

lemma restricted_in_combined:
  assumes "mode \<noteq> ''forums_only''" and "r \<in> set (restricted_groups results)"
  shows "as_target r \<in> set (all_groups_combined mode results)"
  using assms by (auto simp add: all_groups_combined_def mode_filter_def as_target_def)

lemma account_groups_member:
  "account_groups ids gs = Inr ags \<Longrightarrow>
   (g \<in> set ags) = (g \<in> set gs \<and> (\<exists>i. gid g = Some i \<and> i \<in> set ids))"
proof (induction gs arbitrary: ags)
  case Nil
  then show ?case by auto
next
  case (Cons h gs)
  from Cons.prems obtain i rest where h: "gid h = Some i"
    and rest: "account_groups ids gs = Inr rest"
    and ags: "ags = (if i \<in> set ids then h # rest else rest)"
    by (auto split: option.splits sum.splits)
  from Cons.IH [OF rest] h ags show ?case by auto
qed

text \<open>
  In \<^verbatim>\<open>forums_only\<close> mode the combined list holds no restricted group: each re-enters
  with \<^verbatim>\<open>is_forum\<close> false and the mode filter keeps forums only.
\<close>

lemma forums_only_drops_restricted:
  "as_target r \<notin> set (all_groups_combined ''forums_only'' results)"
  by (simp add: all_groups_combined_def mode_filter_def as_target_def)

text \<open>
  The dialogs \<^verbatim>\<open>analyze_account_groups_fast\<close> keeps: groups, among the target ids
  when there are any, whose \<^verbatim>\<open>slowmode_seconds\<close> is not a number above 0, and whose
  \<^verbatim>\<open>participants_count\<close> is not a number above 200000; the second test is not reached
  when \<^verbatim>\<open>slowmode_seconds\<close> is \<^verbatim>\<open>None\<close>, and the dialog is then kept at any size.
\<close>

lemma dialog_usable_iff:
  "dialog_usable target_group_ids d =
     (d_is_group d
      \<and> (target_group_ids = [] \<or> d_id d \<in> set target_group_ids)
      \<and> \<not> (\<exists>n. d_slowmode_seconds d = Value n \<and> 0 < n)
      \<and> (d_slowmode_seconds d = NoneValue
         \<or> \<not> (\<exists>p. d_participants_count d = Value p \<and> 200000 < p)))"
  by (auto simp add: dialog_usable_def split: attr.splits)

lemma analyze_account_groups_fast_member:
  "(i \<in> set (analyze_account_groups_fast target_group_ids dialogs))
     = (\<exists>ds d. dialogs = Some ds \<and> d \<in> set ds \<and> d_id d = i
               \<and> dialog_usable target_group_ids d)"
  by (cases dialogs) (auto simp add: analyze_account_groups_fast_def)

lemma large_dialog_without_slowmode_kept:
  "analyze_account_groups_fast [5]
     (Some [\<lparr>d_id = 5, d_is_group = True, d_slowmode_seconds = NoneValue,
             d_participants_count = Value 999999\<rparr>]) = [5]
   \<and> analyze_account_groups_fast [5]
     (Some [\<lparr>d_id = 5, d_is_group = True, d_slowmode_seconds = Value 0,
             d_participants_count = Value 999999\<rparr>]) = []"
  by (simp add: analyze_account_groups_fast_def dialog_usable_def)

text \<open>
  Claim C9, as the code has it. In the modes other than \<^verbatim>\<open>forums_only\<close>, every group
  the analyzer classified as restricted is in the mode-filtered combined list, as a
  non-forum entry without topics. The list an account's cycles start from is cut from the
  combined list by the ids that \<^verbatim>\<open>analyze_account_groups_fast\<close> returns for that
  account's dialogs: it holds the restricted group's entry exactly when one of the
  account's dialogs has the group's id, is a group, has that id among the target ids
  (or there are no target ids), has no \<^verbatim>\<open>slowmode_seconds\<close> above 0, and either has
  \<^verbatim>\<open>None\<close> for \<^verbatim>\<open>slowmode_seconds\<close> or has no \<^verbatim>\<open>participants_count\<close> above 200000.
\<close>

theorem restricted_groups_stay_targets:
  assumes "mode \<noteq> ''forums_only''"
    and "r \<in> set (restricted_groups results)"
  shows "as_target r \<in> set (all_groups_combined mode results)
       \<and> is_forum (as_target r) = False \<and> topics (as_target r) = []
       \<and> (account_groups (analyze_account_groups_fast target_group_ids dialogs)
             (all_groups_combined mode results) = Inr ags
          \<longrightarrow> (as_target r \<in> set ags)
              = (\<exists>ds d. dialogs = Some ds \<and> d \<in> set ds \<and> d_id d = r_id r
                        \<and> d_is_group d
                        \<and> (target_group_ids = [] \<or> r_id r \<in> set target_group_ids)
                        \<and> \<not> (\<exists>n. d_slowmode_seconds d = Value n \<and> 0 < n)
                        \<and> (d_slowmode_seconds d = NoneValue
                           \<or> \<not> (\<exists>p. d_participants_count d = Value p \<and> 200000 < p))))"
proof -
  define kept where "kept = (\<lambda>d::dialog. d_is_group d
      \<and> (target_group_ids = [] \<or> r_id r \<in> set target_group_ids)
      \<and> \<not> (\<exists>n. d_slowmode_seconds d = Value n \<and> 0 < n)
      \<and> (d_slowmode_seconds d = NoneValue
         \<or> \<not> (\<exists>p. d_participants_count d = Value p \<and> 200000 < p)))"
  have inside: "as_target r \<in> set (all_groups_combined mode results)"
    using assms by (rule restricted_in_combined)
  have shape: "is_forum (as_target r) = False" "topics (as_target r) = []"
    "gid (as_target r) = Some (r_id r)"
    by (simp_all add: as_target_def)
  have usable: "dialog_usable target_group_ids d = kept d" if "d_id d = r_id r" for d
    using that by (simp add: kept_def dialog_usable_iff)
  have found: "(r_id r \<in> set (analyze_account_groups_fast target_group_ids dialogs))
      = (\<exists>ds d. dialogs = Some ds \<and> d \<in> set ds \<and> d_id d = r_id r \<and> kept d)"
    unfolding analyze_account_groups_fast_member using usable by blast
  have assigned: "(as_target r \<in> set ags)
      = (r_id r \<in> set (analyze_account_groups_fast target_group_ids dialogs))"
    if "account_groups (analyze_account_groups_fast target_group_ids dialogs)
          (all_groups_combined mode results) = Inr ags"
    using account_groups_member [OF that, of "as_target r"] inside shape by simp
  have cut: "account_groups (analyze_account_groups_fast target_group_ids dialogs)
          (all_groups_combined mode results) = Inr ags
       \<longrightarrow> (as_target r \<in> set ags)
           = (\<exists>ds d. dialogs = Some ds \<and> d \<in> set ds \<and> d_id d = r_id r \<and> kept d)"
    using assigned found by blast
  from inside shape(1) shape(2) cut show ?thesis
    unfolding kept_def by blast
qed

lemma checks_with_restricted:
  "restricted_groups (checks_with ChatWriteForbiddenError) = [restricted_5 ''Write forbidden'']
   \<and> restricted_groups (checks_with ValueError) = [restricted_5 ''Not a member'']"
  by (simp add: checks_with_def check_group_def restricted_groups_def restricted_5_def
      target_doc_5_def target_doc_6_def plain_entity_def doc_title_def Let_def)

lemma checks_with_combined:
  "all_groups_combined ''both'' (checks_with ValueError)
     = [\<lparr>gid = Some 6, title = ''Market'', is_forum = False, topics = []\<rparr>,
        as_target (restricted_5 ''Not a member'')]
   \<and> all_groups_combined ''both'' (checks_with ChatWriteForbiddenError)
     = [\<lparr>gid = Some 6, title = ''Market'', is_forum = False, topics = []\<rparr>,
        as_target (restricted_5 ''Write forbidden'')]"
  by (simp add: checks_with_def check_group_def restricted_groups_def usable_groups_def
      restricted_5_def target_doc_5_def target_doc_6_def plain_entity_def doc_title_def Let_def
      all_groups_combined_def mode_filter_def)

theorem restricted_groups_stay_targets_witness:
  "''both'' \<noteq> ''forums_only''
   \<and> restricted_5 ''Write forbidden'' \<in> set (restricted_groups (checks_with ChatWriteForbiddenError))
   \<and> as_target (restricted_5 ''Write forbidden'')
       \<in> set (all_groups_combined ''both'' (checks_with ChatWriteForbiddenError))
   \<and> analyze_account_groups_fast [5, 6] (Some [dialog_of 5, dialog_of 6]) = [5, 6]
   \<and> account_groups (analyze_account_groups_fast [5, 6] (Some [dialog_of 5, dialog_of 6]))
        (all_groups_combined ''both'' (checks_with ChatWriteForbiddenError))
       = Inr [\<lparr>gid = Some 6, title = ''Market'', is_forum = False, topics = []\<rparr>,
              as_target (restricted_5 ''Write forbidden'')]
   \<and> (\<exists>ds d. Some [dialog_of 5, dialog_of 6] = Some ds \<and> d \<in> set ds
           \<and> d_id d = r_id (restricted_5 ''Write forbidden'')
           \<and> d_is_group d
           \<and> ([5, 6] = [] \<or> r_id (restricted_5 ''Write forbidden'') \<in> set [5, 6])
           \<and> \<not> (\<exists>n. d_slowmode_seconds d = Value n \<and> 0 < n)
           \<and> (d_slowmode_seconds d = NoneValue
              \<or> \<not> (\<exists>p. d_participants_count d = Value p \<and> 200000 < p)))
   \<and> d_id (dialog_of 5) = r_id (restricted_5 ''Write forbidden'')
   \<and> d_is_group (dialog_of 5)
   \<and> d_slowmode_seconds (dialog_of 5) = Absent
   \<and> d_participants_count (dialog_of 5) = Value 120"
proof -
  have h1: "''both'' \<noteq> ''forums_only''" by simp
  have h2: "restricted_5 ''Write forbidden''
              \<in> set (restricted_groups (checks_with ChatWriteForbiddenError))"
    by (simp add: checks_with_restricted)
  have dialogs: "analyze_account_groups_fast [5, 6] (Some [dialog_of 5, dialog_of 6]) = [5, 6]"
    by (simp add: analyze_account_groups_fast_def dialog_usable_def dialog_of_def)
  have combined: "account_groups [5, 6]
        (all_groups_combined ''both'' (checks_with ChatWriteForbiddenError))
       = Inr [\<lparr>gid = Some 6, title = ''Market'', is_forum = False, topics = []\<rparr>,
              as_target (restricted_5 ''Write forbidden'')]"
    by (simp add: checks_with_combined as_target_def restricted_5_def)
  have assigned: "account_groups
        (analyze_account_groups_fast [5, 6] (Some [dialog_of 5, dialog_of 6]))
        (all_groups_combined ''both'' (checks_with ChatWriteForbiddenError))
       = Inr [\<lparr>gid = Some 6, title = ''Market'', is_forum = False, topics = []\<rparr>,
              as_target (restricted_5 ''Write forbidden'')]"
    unfolding dialogs by (rule combined)
  note main = restricted_groups_stay_targets [OF h1 h2, where target_group_ids = "[5, 6]"
      and dialogs = "Some [dialog_of 5, dialog_of 6]"
      and ags = "[\<lparr>gid = Some 6, title = ''Market'', is_forum = False, topics = []\<rparr>,
                  as_target (restricted_5 ''Write forbidden'')]"]
  have inside: "as_target (restricted_5 ''Write forbidden'')
       \<in> set (all_groups_combined ''both'' (checks_with ChatWriteForbiddenError))"
    using main by blast
  have member: "as_target (restricted_5 ''Write forbidden'')
       \<in> set [\<lparr>gid = Some 6, title = ''Market'', is_forum = False, topics = []\<rparr>,
               as_target (restricted_5 ''Write forbidden'')]"
    by simp
  have held: "(as_target (restricted_5 ''Write forbidden'')
       \<in> set [\<lparr>gid = Some 6, title = ''Market'', is_forum = False, topics = []\<rparr>,
               as_target (restricted_5 ''Write forbidden'')])
     = (\<exists>ds d. Some [dialog_of 5, dialog_of 6] = Some ds \<and> d \<in> set ds
           \<and> d_id d = r_id (restricted_5 ''Write forbidden'')
           \<and> d_is_group d
           \<and> ([5, 6] = [] \<or> r_id (restricted_5 ''Write forbidden'') \<in> set [5, 6])
           \<and> \<not> (\<exists>n. d_slowmode_seconds d = Value n \<and> 0 < n)
           \<and> (d_slowmode_seconds d = NoneValue
              \<or> \<not> (\<exists>p. d_participants_count d = Value p \<and> 200000 < p)))"
    using main assigned by blast
  have dialog: "\<exists>ds d. Some [dialog_of 5, dialog_of 6] = Some ds \<and> d \<in> set ds
           \<and> d_id d = r_id (restricted_5 ''Write forbidden'')
           \<and> d_is_group d
           \<and> ([5, 6] = [] \<or> r_id (restricted_5 ''Write forbidden'') \<in> set [5, 6])
           \<and> \<not> (\<exists>n. d_slowmode_seconds d = Value n \<and> 0 < n)
           \<and> (d_slowmode_seconds d = NoneValue
              \<or> \<not> (\<exists>p. d_participants_count d = Value p \<and> 200000 < p))"
    using held member by (rule iffD1)
  have five: "d_id (dialog_of 5) = r_id (restricted_5 ''Write forbidden'')"
    "d_is_group (dialog_of 5)"
    "d_slowmode_seconds (dialog_of 5) = Absent"
    "d_participants_count (dialog_of 5) = Value 120"
    by (simp_all add: dialog_of_def restricted_5_def)
  from h1 h2 inside dialogs assigned dialog five show ?thesis by blast
qed

text \<open>
  Against claim C9 as stated: a selected group that the account is not a member of is
  classified as restricted and is in the combined list, but it is not among the
  account's dialogs, so the list the account's cycles walk does not hold it.
\<close>

theorem restricted_group_not_iterated:
  "restricted_groups (checks_with ValueError) = [restricted_5 ''Not a member'']
   \<and> as_target (restricted_5 ''Not a member'')
       \<in> set (all_groups_combined ''both'' (checks_with ValueError))
   \<and> analyze_account_groups_fast [5, 6] (Some [dialog_of 6]) = [6]
   \<and> account_groups [6] (all_groups_combined ''both'' (checks_with ValueError))
       = Inr [\<lparr>gid = Some 6, title = ''Market'', is_forum = False, topics = []\<rparr>]
   \<and> as_target (restricted_5 ''Not a member'')
       \<notin> set [\<lparr>gid = Some 6, title = ''Market'', is_forum = False, topics = []\<rparr>]"
proof -
  have classified: "restricted_groups (checks_with ValueError) = [restricted_5 ''Not a member'']"
    by (simp add: checks_with_restricted)
  have inside: "as_target (restricted_5 ''Not a member'')
       \<in> set (all_groups_combined ''both'' (checks_with ValueError))"
    by (simp add: checks_with_combined)
  have dialogs: "analyze_account_groups_fast [5, 6] (Some [dialog_of 6]) = [6]"
    by (simp add: analyze_account_groups_fast_def dialog_usable_def dialog_of_def)
  have assigned: "account_groups [6] (all_groups_combined ''both'' (checks_with ValueError))
       = Inr [\<lparr>gid = Some 6, title = ''Market'', is_forum = False, topics = []\<rparr>]"
    by (simp add: checks_with_combined as_target_def restricted_5_def)
  have absent: "as_target (restricted_5 ''Not a member'')
       \<notin> set [\<lparr>gid = Some 6, title = ''Market'', is_forum = False, topics = []\<rparr>]"
    by (simp add: as_target_def restricted_5_def)
  from classified inside dialogs assigned absent show ?thesis by blast
qed

end
